theory Spec2Isabelle
  imports Complex_Main "HOL-Library.List_Lexorder"
begin

section \<open>JavaScript values\<close>

text \<open>
  A JavaScript string is a sequence of UTF-16 code units; it is modelled as the list of
  their numbers, so that Cyrillic text is represented exactly.  \<open>S\<close> turns an ASCII
  literal into such a list.
\<close>

type_synonym jsstring = "nat list"

definition S :: "string \<Rightarrow> jsstring" where
  "S s = map of_char s"

text \<open>
  Numbers are modelled as exact reals (no rounding error, no overflow).  The values
  \<open>NaN\<close> and \<open>\<plusminus>Infinity\<close> are kept apart in \<open>jsnum\<close>; they are written out at the
  places where the source divides by a quantity that may be zero, or returns
  \<open>Infinity\<close> itself.  The sums of the source start from \<open>+0\<close>, so a zero divisor
  is never the negative zero.
\<close>

datatype jsnum = Fin real | PInf | NInf | NaN

definition jsdiv :: "real \<Rightarrow> real \<Rightarrow> jsnum" where
  "jsdiv a b =
     (if b \<noteq> 0 then Fin (a / b)
      else if a = 0 then NaN
      else if 0 < a then PInf else NInf)"

fun jslt :: "jsnum \<Rightarrow> real \<Rightarrow> bool" where
  "jslt (Fin x) c = (x < c)"
| "jslt NInf c = True"
| "jslt PInf c = False"
| "jslt NaN c = False"

fun jsgt :: "jsnum \<Rightarrow> real \<Rightarrow> bool" where
  "jsgt (Fin x) c = (x > c)"
| "jsgt PInf c = True"
| "jsgt NInf c = False"
| "jsgt NaN c = False"

fun jsge :: "jsnum \<Rightarrow> real \<Rightarrow> bool" where
  "jsge (Fin x) c = (x \<ge> c)"
| "jsge PInf c = True"
| "jsge NInf c = False"
| "jsge NaN c = False"

fun jsabs :: "jsnum \<Rightarrow> jsnum" where
  "jsabs (Fin x) = Fin \<bar>x\<bar>"
| "jsabs PInf = PInf"
| "jsabs NInf = PInf"
| "jsabs NaN = NaN"

fun is_finite :: "jsnum \<Rightarrow> bool" where
  "is_finite (Fin x) = True"
| "is_finite PInf = False"
| "is_finite NInf = False"
| "is_finite NaN = False"

text \<open>\<open>Math.round\<close>: the nearest integer, ties towards \<open>+\<infinity>\<close>.\<close>

definition Math_round :: "real \<Rightarrow> real" where
  "Math_round x = of_int \<lfloor>x + 1 / 2\<rfloor>"

text \<open>\<open>Math.round(v * k)\<close> and \<open>Math.round(v * k) / k\<close> for a positive constant
  \<open>k\<close>, on a value that may be \<open>NaN\<close> or infinite (both pass through unchanged).\<close>

fun round_times :: "real \<Rightarrow> jsnum \<Rightarrow> jsnum" where
  "round_times k (Fin x) = Fin (Math_round (x * k))"
| "round_times k PInf = PInf"
| "round_times k NInf = NInf"
| "round_times k NaN = NaN"

fun round_to :: "real \<Rightarrow> jsnum \<Rightarrow> jsnum" where
  "round_to k (Fin x) = Fin (Math_round (x * k) / k)"
| "round_to k PInf = PInf"
| "round_to k NInf = NInf"
| "round_to k NaN = NaN"

text \<open>
  \<open>Array.prototype.sort\<close> with a comparator \<open>(a, b) => key(a) - key(b)\<close> is a stable
  sort by ascending key; it is modelled by \<open>sort_key\<close>, the stable insertion sort of the
  library.  A descending sort negates the key.
\<close>

section \<open>ML service (\<open>services/ml.ts\<close>)\<close>

datatype error = InvalidInput | RangeError

record LinearRegressionResult =
  slope :: real
  intercept :: real
  r_squared :: real
  prediction :: real
  lr_confidence :: real

text \<open>The body of \<open>linearRegression\<close> after its guard.\<close>

definition regression_body :: "real list \<Rightarrow> real list \<Rightarrow> LinearRegressionResult" where
  "regression_body xValues yValues =
     (let n = real (length xValues);
          xMean = sum_list xValues / n;
          yMean = sum_list yValues / n;
          numerator = (\<Sum>(x, y) \<leftarrow> zip xValues yValues. (x - xMean) * (y - yMean));
          denominator = (\<Sum>x \<leftarrow> xValues. (x - xMean)\<^sup>2);
          slope = (if denominator \<noteq> 0 then numerator / denominator else 0);
          intercept = yMean - slope * xMean;
          yPredicted = map (\<lambda>x. slope * x + intercept) xValues;
          ssRes = (\<Sum>(y, p) \<leftarrow> zip yValues yPredicted. (y - p)\<^sup>2);
          ssTot = (\<Sum>y \<leftarrow> yValues. (y - yMean)\<^sup>2);
          rSquared = (if ssTot \<noteq> 0 then 1 - ssRes / ssTot else 0);
          prediction = slope * n + intercept;
          confidence = min 0.95 (max 0.1 (rSquared * (1 - 1 / n)))
      in \<lparr>slope = slope, intercept = intercept, r_squared = rSquared,
          prediction = max 0 prediction, lr_confidence = confidence\<rparr>)"

text \<open>\<open>linearRegression\<close>: the \<open>throw new Error(...)\<close> of the guard is the value
  \<open>Inl InvalidInput\<close>; nothing else in the body can throw.\<close>

definition linearRegression :: "real list \<Rightarrow> real list \<Rightarrow> error + LinearRegressionResult" where
  "linearRegression xValues yValues =
     (if length xValues \<noteq> length yValues \<or> length xValues < 2 then Inl InvalidInput
      else Inr (regression_body xValues yValues))"

definition calculateStdDev :: "real list \<Rightarrow> real" where
  "calculateStdDev vals =
     (if length vals < 2 then 0
      else let mean = sum_list vals / real (length vals);
               squaredDiffs = map (\<lambda>v. (v - mean)\<^sup>2) vals;
               avgSquaredDiff = sum_list squaredDiffs / real (length vals)
           in sqrt avgSquaredDiff)"

datatype direction = up | down | stable

record TrendAnalysis =
  direction :: direction
  change_percent :: real
  average :: real
  t_min :: real
  t_max :: real
  volatility :: jsnum

text \<open>\<open>analyzeTrend\<close>.  \<open>values[0] || 0\<close> is the first value, or 0 for the empty
  array.  The two divisions by \<open>average\<close> are not guarded in the source, so they are
  \<open>jsdiv\<close>; the divisions by the half lengths have a divisor of at least 1.\<close>

definition analyzeTrend :: "real list \<Rightarrow> error + TrendAnalysis" where
  "analyzeTrend vals =
     (if length vals < 2 then
        (let v0 = (case vals of [] \<Rightarrow> 0 | v # _ \<Rightarrow> v)
         in Inr \<lparr>direction = stable, change_percent = 0, average = v0,
                 t_min = v0, t_max = v0, volatility = Fin 0\<rparr>)
      else
        (case linearRegression (map real [0..<length vals]) vals of
           Inl e \<Rightarrow> Inl e
         | Inr regression \<Rightarrow>
            (let average = sum_list vals / real (length vals);
                 mn = foldl min (hd vals) (tl vals);
                 mx = foldl max (hd vals) (tl vals);
                 volatility = jsdiv (calculateStdDev vals) average;
                 half = length vals div 2;
                 firstHalfAvg = sum_list (take half vals) / real half;
                 secondHalfAvg = sum_list (drop half vals) / real ((length vals + 1) div 2);
                 changePercent =
                   (if firstHalfAvg \<noteq> 0
                    then ((secondHalfAvg - firstHalfAvg) / firstHalfAvg) * 100 else 0);
                 slopeSignificance = jsdiv \<bar>slope regression\<bar> average;
                 direction =
                   (if jslt slopeSignificance 0.02 \<or> r_squared regression < 0.3 then stable
                    else if slope regression > 0 then up
                    else down)
             in Inr \<lparr>direction = direction,
                     change_percent = Math_round (changePercent * 10) / 10,
                     average = Math_round average,
                     t_min = mn, t_max = mx,
                     volatility = round_to 100 volatility\<rparr>)))"

record AnomalyResult =
  isAnomaly :: bool
  zScore :: jsnum
  expectedRange :: "jsnum \<times> jsnum"

definition isAnomaly_fn :: "real \<Rightarrow> real list \<Rightarrow> real \<Rightarrow> AnomalyResult" where
  "isAnomaly_fn val historicalValues threshold =
     (if length historicalValues < 5
      then \<lparr>isAnomaly = False, zScore = Fin 0, expectedRange = (Fin 0, PInf)\<rparr>
      else
        (let mean = sum_list historicalValues / real (length historicalValues);
             stdDev = calculateStdDev historicalValues
         in if stdDev = 0
            then \<lparr>isAnomaly = (val \<noteq> mean),
                  zScore = (if val = mean then Fin 0 else PInf),
                  expectedRange = (Fin mean, Fin mean)\<rparr>
            else
              (let z = (val - mean) / stdDev
               in \<lparr>isAnomaly = (\<bar>z\<bar> > threshold),
                    zScore = Fin (Math_round (z * 100) / 100),
                    expectedRange = (Fin (Math_round (mean - threshold * stdDev)),
                                     Fin (Math_round (mean + threshold * stdDev)))\<rparr>)))"

text \<open>\<open>percentile\<close> is private and only called by \<open>detectAnomaliesIQR\<close>, with
  \<open>p\<close> 25 or 75 on at least four values; both indices are then inside the array.\<close>

definition percentile :: "real list \<Rightarrow> real \<Rightarrow> real" where
  "percentile sortedValues p =
     (let index = (p / 100) * real (length sortedValues - 1);
          lower = \<lfloor>index\<rfloor>;
          upper = \<lceil>index\<rceil>
      in if lower = upper then sortedValues ! nat lower
         else
           (let weight = index - of_int lower
            in sortedValues ! nat lower * (1 - weight) + sortedValues ! nat upper * weight))"

datatype iqr_severity = mild | extreme | none

definition detectAnomaliesIQR :: "real \<Rightarrow> real list \<Rightarrow> real \<Rightarrow> bool \<times> iqr_severity" where
  "detectAnomaliesIQR val historicalValues multiplier =
     (if length historicalValues < 4 then (False, none)
      else
        (let sorted = sort historicalValues;
             q1 = percentile sorted 25;
             q3 = percentile sorted 75;
             iqr = q3 - q1;
             lowerBound = q1 - multiplier * iqr;
             upperBound = q3 + multiplier * iqr;
             extremeLower = q1 - 3 * iqr;
             extremeUpper = q3 + 3 * iqr
         in if val < extremeLower \<or> val > extremeUpper then (True, extreme)
            else if val < lowerBound \<or> val > upperBound then (True, mild)
            else (False, none)))"

definition iqr_default_multiplier :: real where
  "iqr_default_multiplier = 1.5"

section \<open>Dates\<close>

text \<open>
  A \<open>Date\<close> is modelled by its time value, the milliseconds since the epoch, and
  \<open>None\<close> is the \<open>Invalid Date\<close>.  The local time zone is taken to be UTC, and
  the limits of the time-value range are ignored.  The calendar arithmetic is the
  proleptic Gregorian one of the language standard.
\<close>

definition msPerDay :: int where
  "msPerDay = 86400000"

definition days_from_civil :: "int \<Rightarrow> int \<Rightarrow> int \<Rightarrow> int" where
  "days_from_civil y0 m d =
     (let y = (if m \<le> 2 then y0 - 1 else y0);
          era = y div 400;
          yoe = y - era * 400;
          doy = (153 * (if m > 2 then m - 3 else m + 9) + 2) div 5 + d - 1;
          doe = yoe * 365 + yoe div 4 - yoe div 100 + doy
      in era * 146097 + doe - 719468)"

definition civil_from_days :: "int \<Rightarrow> int \<times> int \<times> int" where
  "civil_from_days z0 =
     (let z = z0 + 719468;
          era = z div 146097;
          doe = z - era * 146097;
          yoe = (doe - doe div 1460 + doe div 36524 - doe div 146096) div 365;
          doy = doe - (365 * yoe + yoe div 4 - yoe div 100);
          mp = (5 * doy + 2) div 153;
          d = doy - (153 * mp + 2) div 5 + 1;
          m = (if mp < 10 then mp + 3 else mp - 9);
          y = yoe + era * 400
      in (if m \<le> 2 then y + 1 else y, m, d))"

text \<open>\<open>getFullYear\<close>, \<open>getMonth\<close> (1 to 12 here, 0 to 11 in the source) and
  \<open>getDate\<close> of a time value.\<close>

definition getFullYear :: "int \<Rightarrow> int" where
  "getFullYear t = fst (civil_from_days (t div msPerDay))"

definition getMonth :: "int \<Rightarrow> int" where
  "getMonth t = fst (snd (civil_from_days (t div msPerDay)))"

definition getDate :: "int \<Rightarrow> int" where
  "getDate t = snd (snd (civil_from_days (t div msPerDay)))"

text \<open>The calendar day of a time value: what \<open>toISOString().split('T')[0]\<close> and
  \<open>toDateString()\<close> name, as the number of the day.\<close>

definition day_of :: "int \<Rightarrow> int" where
  "day_of t = t div msPerDay"

text \<open>\<open>new Date(year, month, 1)\<close>; a year from 0 to 99 denotes 1900 + year.\<close>

definition first_of_month :: "int \<Rightarrow> int \<Rightarrow> int" where
  "first_of_month y m =
     days_from_civil (if 0 \<le> y \<and> y \<le> 99 then 1900 + y else y) m 1 * msPerDay"

fun digits_value :: "int \<Rightarrow> jsstring \<Rightarrow> int option" where
  "digits_value acc [] = Some acc"
| "digits_value acc (c # cs) =
     (if 48 \<le> c \<and> c \<le> 57 then digits_value (acc * 10 + (int c - 48)) cs else None)"

definition parse_ymd :: "jsstring \<Rightarrow> int option" where
  "parse_ymd s =
     (if length s = 10 \<and> s ! 4 = 45 \<and> s ! 7 = 45 then
        (case (digits_value 0 (take 4 s), digits_value 0 (take 2 (drop 5 s)),
               digits_value 0 (drop 8 s)) of
           (Some y, Some m, Some d) \<Rightarrow>
             (if 1 \<le> m \<and> m \<le> 12 \<and> 1 \<le> d \<and> d \<le> 31
              then Some ((days_from_civil y m 1 + d - 1) * msPerDay) else None)
         | _ \<Rightarrow> None)
      else None)"

text \<open>
  \<open>new Date(string)\<close> for the two forms the application produces: the date
  \<open>YYYY-MM-DD\<close> (midnight UTC) and the time stamp \<open>YYYY-MM-DDTHH:mm:ss.sssZ\<close> that
  \<open>toISOString\<close> prints.  Any other string is taken as an \<open>Invalid Date\<close>
  (what the engine does with other forms is implementation-defined).
\<close>

definition parseDate :: "jsstring \<Rightarrow> int option" where
  "parseDate s =
     (if length s = 10 then parse_ymd s
      else if length s = 24 \<and> s ! 10 = 84 \<and> s ! 13 = 58 \<and> s ! 16 = 58 \<and> s ! 19 = 46
              \<and> s ! 23 = 90 then
        (case (parse_ymd (take 10 s), digits_value 0 (take 2 (drop 11 s)),
               digits_value 0 (take 2 (drop 14 s)), digits_value 0 (take 2 (drop 17 s)),
               digits_value 0 (take 3 (drop 20 s))) of
           (Some t, Some h, Some mi, Some sec, Some ms) \<Rightarrow>
             (if h < 24 \<and> mi < 60 \<and> sec < 60
              then Some (t + h * 3600000 + mi * 60000 + sec * 1000 + ms) else None)
         | _ \<Rightarrow> None)
      else None)"

text \<open>\<open>new Date(s) >= bound\<close>: a comparison with the \<open>Invalid Date\<close> is false.\<close>

definition date_ge :: "jsstring \<Rightarrow> int \<Rightarrow> bool" where
  "date_ge s bound = (case parseDate s of None \<Rightarrow> False | Some t \<Rightarrow> t \<ge> bound)"

section \<open>Data model (\<open>types\<close>)\<close>

text \<open>
  The fields the analytics engine reads.  An optional field is an \<open>option\<close>, with
  \<open>None\<close> for the absent (\<open>undefined\<close>) value.  \<open>category_name\<close> is the name of
  the joined \<open>category\<close> object, when the record carries one.
\<close>

datatype TransactionType = income | expense | transfer

record Transaction =
  tx_id :: jsstring
  tx_type :: TransactionType
  amount :: real
  date :: jsstring
  category_id :: "jsstring option"
  description :: "jsstring option"
  is_credit :: bool
  category_name :: "jsstring option"

record Budget =
  b_id :: jsstring
  b_category_id :: "jsstring option"
  b_name :: jsstring
  b_amount :: real
  alert_threshold :: real
  b_is_active :: bool
  b_category_name :: "jsstring option"

record Category =
  c_id :: jsstring
  c_name :: jsstring
  c_keywords :: "jsstring list"

record Goal =
  target_amount :: real
  current_amount :: real
  deadline :: "jsstring option"
  is_completed :: bool

record HealthSnapshot =
  snapshot_date :: jsstring
  overall_score :: real

datatype trend_label = increasing | decreasing | stable_trend

record HealthMetrics =
  total_income :: real
  total_expense :: real
  net_savings :: real
  savings_rate :: real
  budgets_on_track :: nat
  budgets_exceeded :: nat
  budget_adherence_rate :: real
  avg_daily_expense :: real
  expense_volatility :: real
  largest_expense :: real
  credit_usage :: real
  credit_ratio :: real
  goals_progress :: real
  goals_on_track :: nat
  expense_trend :: trend_label
  income_trend :: trend_label

section \<open>Financial health service (\<open>services/health.ts\<close>)\<close>

record Weights =
  w_savings :: real
  w_budget :: real
  w_debt :: real
  w_stability :: real

definition WEIGHTS :: Weights where
  "WEIGHTS = \<lparr>w_savings = 0.30, w_budget = 0.25, w_debt = 0.20, w_stability = 0.25\<rparr>"

record Thresholds =
  excellent :: real
  good :: real
  fair :: real
  poor :: real

definition THRESHOLDS_savings :: Thresholds where
  "THRESHOLDS_savings = \<lparr>excellent = 0.20, good = 0.10, fair = 0.05, poor = 0\<rparr>"

definition THRESHOLDS_budget :: Thresholds where
  "THRESHOLDS_budget = \<lparr>excellent = 0.90, good = 0.70, fair = 0.50, poor = 0\<rparr>"

definition THRESHOLDS_debt :: Thresholds where
  "THRESHOLDS_debt = \<lparr>excellent = 0.10, good = 0.20, fair = 0.40, poor = 0.40\<rparr>"

definition THRESHOLDS_stability :: Thresholds where
  "THRESHOLDS_stability = \<lparr>excellent = 0.15, good = 0.25, fair = 0.40, poor = 0.40\<rparr>"

text \<open>An exception of a callee passes through the caller.\<close>

definition bind_err :: "error + 'a \<Rightarrow> ('a \<Rightarrow> error + 'b) \<Rightarrow> error + 'b" where
  "bind_err m f = (case m of Inl e \<Rightarrow> Inl e | Inr x \<Rightarrow> f x)"

text \<open>\<open>byDay[day] = (byDay[day] || 0) + t.amount\<close> on a record kept in insertion
  order (its keys, day strings, are never array indices).\<close>

fun add_to_key :: "'k \<Rightarrow> real \<Rightarrow> ('k \<times> real) list \<Rightarrow> ('k \<times> real) list" where
  "add_to_key k v [] = [(k, v)]"
| "add_to_key k v ((k', s) # r) =
     (if k = k' then (k', s + v) # r else (k', s) # add_to_key k v r)"

text \<open>\<open>calculateDailyExpenses\<close>: \<open>toISOString\<close> throws a \<open>RangeError\<close> on an
  \<open>Invalid Date\<close>.\<close>

fun byDay_of :: "Transaction list \<Rightarrow> (int \<times> real) list \<Rightarrow> error + (int \<times> real) list" where
  "byDay_of [] byDay = Inr byDay"
| "byDay_of (t # ts) byDay =
     (case parseDate (date t) of
        None \<Rightarrow> Inl RangeError
      | Some ms \<Rightarrow> byDay_of ts (add_to_key (day_of ms) (amount t) byDay))"

definition calculateDailyExpenses :: "Transaction list \<Rightarrow> error + real list" where
  "calculateDailyExpenses transactions =
     bind_err (byDay_of transactions []) (\<lambda>byDay. Inr (map snd byDay))"

definition calculateVolatility :: "real list \<Rightarrow> real" where
  "calculateVolatility vals =
     (if length vals < 2 then 0
      else let mean = sum_list vals / real (length vals)
           in if mean = 0 then 0
              else let squaredDiffs = map (\<lambda>v. (v - mean)\<^sup>2) vals;
                       variance = sum_list squaredDiffs / real (length vals);
                       stdDev = sqrt variance
                   in stdDev / mean)"

record MonthlyData =
  month :: jsstring
  m_income :: real
  m_expense :: real

definition month_add :: "Transaction \<Rightarrow> MonthlyData \<Rightarrow> MonthlyData" where
  "month_add t e =
     (if tx_type t = income then e\<lparr>m_income := m_income e + amount t\<rparr>
      else if tx_type t = expense then e\<lparr>m_expense := m_expense e + amount t\<rparr>
      else e)"

fun byMonth_add :: "Transaction \<Rightarrow> MonthlyData list \<Rightarrow> MonthlyData list" where
  "byMonth_add t [] = [month_add t \<lparr>month = take 7 (date t), m_income = 0, m_expense = 0\<rparr>]"
| "byMonth_add t (e # r) =
     (if month e = take 7 (date t) then month_add t e # r else e # byMonth_add t r)"

text \<open>\<open>aggregateMonthly\<close>: the months are the distinct keys of a record, sorted by
  \<open>localeCompare\<close>, which on the keys \<open>YYYY-MM\<close> is the order of the code units.\<close>

definition aggregateMonthly :: "Transaction list \<Rightarrow> MonthlyData list" where
  "aggregateMonthly transactions =
     sort_key month (foldl (\<lambda>byMonth t. byMonth_add t byMonth) [] transactions)"

text \<open>The amount spent against a budget: the body of the \<open>forEach\<close> over the active
  budgets.  \<open>===\<close> on two absent category ids is true.\<close>

definition budget_spent :: "Transaction list \<Rightarrow> Budget \<Rightarrow> real" where
  "budget_spent expenseTransactions budget =
     sum_list (map amount
       (filter (\<lambda>t. category_id t = b_category_id budget) expenseTransactions))"

definition label_of :: "direction \<Rightarrow> trend_label" where
  "label_of d = (if d = up then increasing else if d = down then decreasing else stable_trend)"

text \<open>A goal is on track when it has no deadline (absent or the empty string), or when
  the savings per day so far reach 80% of what the deadline requires; with an invalid
  deadline the comparison is one with \<open>NaN\<close>, which is false.\<close>

definition goal_on_track :: "int \<Rightarrow> real \<Rightarrow> Goal \<Rightarrow> bool" where
  "goal_on_track now net goal =
     (case deadline goal of
        None \<Rightarrow> True
      | Some dl \<Rightarrow>
          (if dl = [] then True
           else
             (case parseDate dl of
                None \<Rightarrow> False
              | Some ms \<Rightarrow>
                  (let remaining = target_amount goal - current_amount goal;
                       daysLeft = max 1 (real_of_int (ms - now) / real_of_int msPerDay);
                       requiredDaily = remaining / daysLeft;
                       avgDailySavings = net / real_of_int (getDate now)
                   in avgDailySavings \<ge> requiredDaily * 0.8))))"

text \<open>\<open>new Date(now.getFullYear(), now.getMonth(), 1)\<close>: the start of the current
  month.\<close>

definition currentMonthStart :: "int \<Rightarrow> int" where
  "currentMonthStart now = first_of_month (getFullYear now) (getMonth now)"

text \<open>\<open>calculateMetrics\<close>.  The wall clock that \<open>new Date()\<close> reads is the
  parameter \<open>now\<close>.\<close>

definition calculateMetrics ::
  "int \<Rightarrow> Transaction list \<Rightarrow> Budget list \<Rightarrow> Goal list \<Rightarrow> error + HealthMetrics" where
  "calculateMetrics now transactions budgets goals =
     (let monthStart = currentMonthStart now;
          monthTransactions = filter (\<lambda>t. date_ge (date t) monthStart) transactions;
          incomeTransactions = filter (\<lambda>t. tx_type t = income) monthTransactions;
          expenseTransactions = filter (\<lambda>t. tx_type t = expense) monthTransactions;
          total_income = sum_list (map amount incomeTransactions);
          total_expense = sum_list (map amount expenseTransactions);
          net_savings = total_income - total_expense;
          savings_rate = (if total_income > 0 then net_savings / total_income else 0);
          activeBudgets = filter b_is_active budgets;
          budgets_on_track =
            length (filter (\<lambda>b. budget_spent expenseTransactions b \<le> b_amount b) activeBudgets);
          budgets_exceeded =
            length (filter (\<lambda>b. \<not> budget_spent expenseTransactions b \<le> b_amount b) activeBudgets);
          budget_adherence_rate =
            (if length activeBudgets > 0
             then real budgets_on_track / real (length activeBudgets) else 1)
      in bind_err (calculateDailyExpenses expenseTransactions) (\<lambda>dailyExpenses.
         let avg_daily_expense =
               (if length dailyExpenses > 0
                then sum_list dailyExpenses / real (length dailyExpenses) else 0);
             expense_volatility = calculateVolatility dailyExpenses;
             largest_expense = foldl max 0 (map amount expenseTransactions);
             creditTransactions = filter is_credit expenseTransactions;
             credit_usage = sum_list (map amount creditTransactions);
             credit_ratio = (if total_expense > 0 then credit_usage / total_expense else 0);
             activeGoals = filter (\<lambda>g. \<not> is_completed g) goals;
             goals_progress =
               (if length activeGoals > 0
                then sum_list (map (\<lambda>g. min 1 (if target_amount g > 0
                                                 then current_amount g / target_amount g
                                                 else 0)) activeGoals)
                     / real (length activeGoals)
                else 1);
             goals_on_track = length (filter (goal_on_track now net_savings) activeGoals);
             monthlyData = aggregateMonthly transactions
         in bind_err (analyzeTrend (map m_expense monthlyData)) (\<lambda>expenseTrend.
            bind_err (analyzeTrend (map m_income monthlyData)) (\<lambda>incomeTrend.
              Inr \<lparr>total_income = total_income,
                   total_expense = total_expense,
                   net_savings = net_savings,
                   savings_rate = savings_rate,
                   budgets_on_track = budgets_on_track,
                   budgets_exceeded = budgets_exceeded,
                   budget_adherence_rate = budget_adherence_rate,
                   avg_daily_expense = Math_round avg_daily_expense,
                   expense_volatility = expense_volatility,
                   largest_expense = largest_expense,
                   credit_usage = credit_usage,
                   credit_ratio = credit_ratio,
                   goals_progress = goals_progress,
                   goals_on_track = goals_on_track,
                   expense_trend = label_of (direction expenseTrend),
                   income_trend = label_of (direction incomeTrend)\<rparr>))))"

definition calculateSavingsScore :: "HealthMetrics \<Rightarrow> real" where
  "calculateSavingsScore metrics =
     (let rate = savings_rate metrics
      in if rate \<ge> excellent THRESHOLDS_savings then 100
         else if rate \<ge> good THRESHOLDS_savings then
           70 + 30 * (rate - good THRESHOLDS_savings)
                / (excellent THRESHOLDS_savings - good THRESHOLDS_savings)
         else if rate \<ge> fair THRESHOLDS_savings then
           40 + 30 * (rate - fair THRESHOLDS_savings)
                / (good THRESHOLDS_savings - fair THRESHOLDS_savings)
         else if rate > 0 then 40 * rate / fair THRESHOLDS_savings
         else max 0 (20 + rate * 100))"

definition calculateBudgetScore :: "HealthMetrics \<Rightarrow> real" where
  "calculateBudgetScore metrics =
     (let rate = budget_adherence_rate metrics
      in if budgets_on_track metrics + budgets_exceeded metrics = 0 then 70
         else if rate \<ge> excellent THRESHOLDS_budget then 100
         else if rate \<ge> good THRESHOLDS_budget then
           70 + 30 * (rate - good THRESHOLDS_budget)
                / (excellent THRESHOLDS_budget - good THRESHOLDS_budget)
         else if rate \<ge> fair THRESHOLDS_budget then
           40 + 30 * (rate - fair THRESHOLDS_budget)
                / (good THRESHOLDS_budget - fair THRESHOLDS_budget)
         else 40 * rate / fair THRESHOLDS_budget)"

definition calculateDebtScore :: "HealthMetrics \<Rightarrow> real" where
  "calculateDebtScore metrics =
     (let ratio = credit_ratio metrics
      in if ratio = 0 then 100
         else if ratio \<le> excellent THRESHOLDS_debt then 100
         else if ratio \<le> good THRESHOLDS_debt then
           70 + 30 * (good THRESHOLDS_debt - ratio)
                / (good THRESHOLDS_debt - excellent THRESHOLDS_debt)
         else if ratio \<le> fair THRESHOLDS_debt then
           40 + 30 * (fair THRESHOLDS_debt - ratio)
                / (fair THRESHOLDS_debt - good THRESHOLDS_debt)
         else max 0 (40 - (ratio - poor THRESHOLDS_debt) * 100))"

definition calculateStabilityScore :: "HealthMetrics \<Rightarrow> real" where
  "calculateStabilityScore metrics =
     (let volatility = expense_volatility metrics;
          trendPenalty0 = (if expense_trend metrics = increasing then 10 else 0);
          trendPenalty = (if income_trend metrics = decreasing
                          then trendPenalty0 + 10 else trendPenalty0);
          baseScore =
            (if volatility \<le> excellent THRESHOLDS_stability then 100
             else if volatility \<le> good THRESHOLDS_stability then
               70 + 30 * (good THRESHOLDS_stability - volatility)
                    / (good THRESHOLDS_stability - excellent THRESHOLDS_stability)
             else if volatility \<le> fair THRESHOLDS_stability then
               40 + 30 * (fair THRESHOLDS_stability - volatility)
                    / (fair THRESHOLDS_stability - good THRESHOLDS_stability)
             else max 0 (40 - (volatility - poor THRESHOLDS_stability) * 50))
      in max 0 (baseScore - trendPenalty))"

datatype grade = grade_A | grade_B | grade_C | grade_D | grade_F

definition getGradeInfo :: "real \<Rightarrow> grade" where
  "getGradeInfo score =
     (if score \<ge> 90 then grade_A
      else if score \<ge> 75 then grade_B
      else if score \<ge> 60 then grade_C
      else if score \<ge> 40 then grade_D
      else grade_F)"

record HealthScore =
  overall :: real
  savings :: real
  budget :: real
  debt :: real
  stability :: real
  grade :: grade

text \<open>\<open>x || d\<close> on numbers: \<open>d\<close> when \<open>x\<close> is 0.\<close>

definition or_else :: "real \<Rightarrow> real \<Rightarrow> real" where
  "or_else x d = (if x = 0 then d else x)"

text \<open>\<open>calculateComparison\<close>: the snapshots in descending order of their date
  string (a stable sort).\<close>

definition calculateComparison :: "real \<Rightarrow> HealthSnapshot list \<Rightarrow> real \<times> real" where
  "calculateComparison currentScore snapshots =
     (if length snapshots = 0 then (0, 0)
      else
        (let sorted = rev (sort_key snapshot_date (rev snapshots));
             lastMonth = or_else (overall_score (sorted ! 0)) currentScore;
             lastQuarter = (if 2 < length sorted
                            then or_else (overall_score (sorted ! 2)) lastMonth
                            else lastMonth)
         in (currentScore - lastMonth, currentScore - lastQuarter)))"

record Trends =
  trend_income :: TrendAnalysis
  trend_expense :: TrendAnalysis
  trend_savings :: TrendAnalysis

record HealthAnalysis =
  score :: HealthScore
  metrics :: HealthMetrics
  trends :: Trends
  comparison :: "real \<times> real"

text \<open>\<open>analyzeFinancialHealth\<close>.  The recommendation texts, the emoji and the summary
  string are display data derived from the score and the metrics; they are not part of
  the model.\<close>

definition analyzeFinancialHealth ::
  "int \<Rightarrow> Transaction list \<Rightarrow> Budget list \<Rightarrow> Goal list \<Rightarrow> HealthSnapshot list
     \<Rightarrow> error + HealthAnalysis" where
  "analyzeFinancialHealth now transactions budgets goals previousSnapshots =
     bind_err (calculateMetrics now transactions budgets goals) (\<lambda>metrics.
       let savingsScore = calculateSavingsScore metrics;
           budgetScore = calculateBudgetScore metrics;
           debtScore = calculateDebtScore metrics;
           stabilityScore = calculateStabilityScore metrics;
           overall = Math_round
             (savingsScore * w_savings WEIGHTS + budgetScore * w_budget WEIGHTS
              + debtScore * w_debt WEIGHTS + stabilityScore * w_stability WEIGHTS);
           score = \<lparr>overall = overall, savings = savingsScore, budget = budgetScore,
                    debt = debtScore, stability = stabilityScore,
                    grade = getGradeInfo overall\<rparr>;
           monthlyData = aggregateMonthly transactions
       in bind_err (analyzeTrend (map m_income monthlyData)) (\<lambda>ti.
          bind_err (analyzeTrend (map m_expense monthlyData)) (\<lambda>te.
          bind_err (analyzeTrend (map (\<lambda>m. m_income m - m_expense m) monthlyData)) (\<lambda>ts.
            Inr \<lparr>score = score, metrics = metrics,
                 trends = \<lparr>trend_income = ti, trend_expense = te, trend_savings = ts\<rparr>,
                 comparison = calculateComparison overall previousSnapshots\<rparr>))))"

section \<open>Budget alerts (\<open>services/analytics.ts\<close>)\<close>

record BudgetAlert =
  budget_id :: jsstring
  budget_name :: jsstring
  alert_category_name :: "jsstring option"
  spent :: real
  limit :: real
  percentage :: jsnum

definition budget_percentage :: "real \<Rightarrow> Budget \<Rightarrow> jsnum" where
  "budget_percentage sp bdg = round_times 100 (jsdiv sp (b_amount bdg))"

fun percentage_key :: "BudgetAlert \<Rightarrow> real" where
  "percentage_key a = (case percentage a of Fin p \<Rightarrow> - p | _ \<Rightarrow> 0)"

text \<open>\<open>getBudgetAlerts\<close>.  The alerts are sorted by descending percentage (a stable
  sort).  When a percentage is not finite (a budget of amount 0) the comparator of the
  source is not consistent and the order is implementation-defined; the model then keeps
  the order of the budgets.\<close>

definition getBudgetAlerts :: "Budget list \<Rightarrow> Transaction list \<Rightarrow> BudgetAlert list" where
  "getBudgetAlerts budgets expenses =
     (let alerts =
            concat (map (\<lambda>budget.
              let categoryExpenses =
                    filter (\<lambda>e. category_id e = b_category_id budget) expenses;
                  spent = sum_list (map amount categoryExpenses);
                  percentage = budget_percentage spent budget
              in if jsge percentage (alert_threshold budget)
                 then [\<lparr>budget_id = b_id budget, budget_name = b_name budget,
                        alert_category_name = b_category_name budget,
                        spent = spent, limit = b_amount budget,
                        percentage = percentage\<rparr>]
                 else [])
              (filter b_is_active budgets))
      in if list_all (\<lambda>a. is_finite (percentage a)) alerts
         then sort_key percentage_key alerts else alerts)"

section \<open>Anomaly detection service (\<open>services/anomaly.ts\<close>)\<close>

record AnomalyDetectionConfig =
  amount_threshold :: real
  lookback_days :: int
  min_transactions :: nat
  iqr_multiplier :: real

definition DEFAULT_CONFIG :: AnomalyDetectionConfig where
  "DEFAULT_CONFIG =
     \<lparr>amount_threshold = 2.5, lookback_days = 90, min_transactions = 5,
      iqr_multiplier = 1.5\<rparr>"

text \<open>A \<open>Partial<AnomalyDetectionConfig>\<close>: \<open>None\<close> is a property the caller left
  out.  \<open>merge_config\<close> is \<open>{ ...DEFAULT_CONFIG, ...config }\<close>.  The numbers of days
  and of transactions are whole numbers.\<close>

record PartialConfig =
  p_amount_threshold :: "real option"
  p_lookback_days :: "int option"
  p_min_transactions :: "nat option"
  p_iqr_multiplier :: "real option"

definition merge_config :: "PartialConfig \<Rightarrow> AnomalyDetectionConfig" where
  "merge_config config =
     \<lparr>amount_threshold =
        (case p_amount_threshold config of None \<Rightarrow> amount_threshold DEFAULT_CONFIG | Some v \<Rightarrow> v),
      lookback_days =
        (case p_lookback_days config of None \<Rightarrow> lookback_days DEFAULT_CONFIG | Some v \<Rightarrow> v),
      min_transactions =
        (case p_min_transactions config of None \<Rightarrow> min_transactions DEFAULT_CONFIG | Some v \<Rightarrow> v),
      iqr_multiplier =
        (case p_iqr_multiplier config of None \<Rightarrow> iqr_multiplier DEFAULT_CONFIG | Some v \<Rightarrow> v)\<rparr>"

definition no_config :: PartialConfig where
  "no_config =
     \<lparr>p_amount_threshold = None, p_lookback_days = None, p_min_transactions = None,
      p_iqr_multiplier = None\<rparr>"

datatype AnomalyType = high_amount | unusual_category | frequency | new_merchant

datatype AnomalySeverity = info | warning | alert

text \<open>A detected anomaly with its \<open>details\<close>.  The \<open>message\<close> is a display text put
  together from the same values; it is not part of the model.\<close>

record DetectedAnomaly =
  a_type :: AnomalyType
  severity :: AnomalySeverity
  transaction_id :: "jsstring option"
  expected_value :: "real option"
  actual_value :: "real option"
  z_score :: "jsnum option"
  a_category :: "jsstring option"
  historical_average :: "jsnum option"
  deviation_percent :: "jsnum option"

text \<open>A string used as a condition: absent and empty strings are falsy.\<close>

definition truthy :: "jsstring option \<Rightarrow> bool" where
  "truthy s = (case s of None \<Rightarrow> False | Some v \<Rightarrow> v \<noteq> [])"

definition detectHighAmount ::
  "Transaction \<Rightarrow> Transaction list \<Rightarrow> AnomalyDetectionConfig \<Rightarrow> DetectedAnomaly option" where
  "detectHighAmount transaction history config =
     (let amounts = map amount history
      in if length amounts < min_transactions config then None
         else
           (let result = isAnomaly_fn (amount transaction) amounts (amount_threshold config)
            in if \<not> isAnomaly result then None
               else
                 (let avg = sum_list amounts / real (length amounts);
                      deviationPercent = round_times 100 (jsdiv (amount transaction - avg) avg);
                      sev = (if jsgt (jsabs (zScore result)) 4 then alert
                             else if jsgt (jsabs (zScore result)) 3 then warning
                             else info)
                  in Some \<lparr>a_type = high_amount, severity = sev,
                           transaction_id = Some (tx_id transaction),
                           expected_value = Some (Math_round avg),
                           actual_value = Some (amount transaction),
                           z_score = Some (zScore result),
                           a_category = None,
                           historical_average = Some (Fin (Math_round avg)),
                           deviation_percent = Some deviationPercent\<rparr>)))"

text \<open>The word the source falls back to when the transaction carries no category name.\<close>

definition default_category_word :: jsstring where
  "default_category_word = [1082, 1072, 1090, 1077, 1075, 1086, 1088, 1080, 1080]"

definition detectCategoryAnomaly ::
  "Transaction \<Rightarrow> Transaction list \<Rightarrow> AnomalyDetectionConfig \<Rightarrow> DetectedAnomaly option" where
  "detectCategoryAnomaly transaction history config =
     (let categoryHistory = filter (\<lambda>t. category_id t = category_id transaction) history
      in if length categoryHistory < min_transactions config then None
         else
           (let amounts = map amount categoryHistory;
                iqrResult = detectAnomaliesIQR (amount transaction) amounts (iqr_multiplier config)
            in if \<not> fst iqrResult then None
               else
                 (let avg = sum_list amounts / real (length amounts);
                      category = (if truthy (category_name transaction)
                                  then the (category_name transaction)
                                  else default_category_word)
                  in Some \<lparr>a_type = unusual_category,
                           severity = (if snd iqrResult = extreme then alert else warning),
                           transaction_id = Some (tx_id transaction),
                           expected_value = Some (Math_round avg),
                           actual_value = Some (amount transaction),
                           z_score = None,
                           a_category = Some category,
                           historical_average = Some (Fin (Math_round avg)),
                           deviation_percent = None\<rparr>)))"

text \<open>\<open>detectUnusualCategory\<close>.  \<open>categoryCounts\<close> counts the history per category
  id, so the count of the transaction's own category is the number of historical
  transactions with that id (category ids are identifiers that name no inherited
  property of an object).\<close>

definition detectUnusualCategory ::
  "Transaction \<Rightarrow> Transaction list \<Rightarrow> Category list \<Rightarrow> AnomalyDetectionConfig
     \<Rightarrow> DetectedAnomaly option" where
  "detectUnusualCategory transaction history categories config =
     (if \<not> truthy (category_id transaction) then None
      else
        (let thisCount = length (filter (\<lambda>t. category_id t = category_id transaction) history);
             totalTransactions = length history
         in if totalTransactions > 20 \<and> real thisCount / real totalTransactions < 0.02
            then
              (let category = find (\<lambda>c. Some (c_id c) = category_id transaction) categories
               in Some \<lparr>a_type = new_merchant, severity = info,
                        transaction_id = Some (tx_id transaction),
                        expected_value = None, actual_value = None, z_score = None,
                        a_category = map_option c_name category,
                        historical_average = None, deviation_percent = None\<rparr>)
            else None))"

text \<open>The calendar day \<open>toDateString\<close> prints; two invalid dates print the same
  text.\<close>

definition date_string_day :: "jsstring \<Rightarrow> int option" where
  "date_string_day s = map_option day_of (parseDate s)"

text \<open>\<open>detectFrequencyAnomaly\<close>.  The average \<open>history.length / lookback_days\<close> is
  not guarded against a window of 0 days.  The transactions of the same week are
  collected by the source and not used.\<close>

definition detectFrequencyAnomaly ::
  "Transaction \<Rightarrow> Transaction list \<Rightarrow> AnomalyDetectionConfig \<Rightarrow> DetectedAnomaly option" where
  "detectFrequencyAnomaly transaction history config =
     (let sameDay = filter (\<lambda>t. date_string_day (date t) = date_string_day (date transaction))
                      history;
          daysCovered = lookback_days config;
          avgDailyTransactions = jsdiv (real (length history)) (real_of_int daysCovered);
          above_average =
            (case avgDailyTransactions of
               Fin a \<Rightarrow> real (length sameDay) > a * 3
             | PInf \<Rightarrow> False
             | NInf \<Rightarrow> True
             | NaN \<Rightarrow> False)
      in if length sameDay > 10 \<and> above_average
         then Some \<lparr>a_type = frequency, severity = warning,
                    transaction_id = None, expected_value = None,
                    actual_value = Some (real (length sameDay + 1)),
                    z_score = None, a_category = None,
                    historical_average = Some (round_times 1 avgDailyTransactions),
                    deviation_percent = None\<rparr>
         else None)"

text \<open>The start of the lookback window: \<open>setDate(getDate() - lookback_days)\<close> on the
  clock reading.\<close>

definition cutoffDate :: "int \<Rightarrow> AnomalyDetectionConfig \<Rightarrow> int" where
  "cutoffDate now cfg = now - lookback_days cfg * msPerDay"

definition relevantHistory ::
  "int \<Rightarrow> AnomalyDetectionConfig \<Rightarrow> Transaction \<Rightarrow> Transaction list \<Rightarrow> Transaction list" where
  "relevantHistory now cfg transaction historicalTransactions =
     filter (\<lambda>t. tx_type t = expense \<and> date_ge (date t) (cutoffDate now cfg)
                  \<and> tx_id t \<noteq> tx_id transaction)
       historicalTransactions"

definition opt_list :: "'a option \<Rightarrow> 'a list" where
  "opt_list x = (case x of None \<Rightarrow> [] | Some v \<Rightarrow> [v])"

text \<open>\<open>detectTransactionAnomalies\<close>.  The wall clock that \<open>new Date()\<close> reads is the
  parameter \<open>now\<close>.\<close>

definition detectTransactionAnomalies ::
  "int \<Rightarrow> Transaction \<Rightarrow> Transaction list \<Rightarrow> Category list \<Rightarrow> PartialConfig
     \<Rightarrow> DetectedAnomaly list" where
  "detectTransactionAnomalies now transaction historicalTransactions categories config =
     (let cfg = merge_config config
      in if tx_type transaction \<noteq> expense then []
         else
           (let history = relevantHistory now cfg transaction historicalTransactions;
                highAmountAnomaly = detectHighAmount transaction history cfg;
                categoryAnomaly =
                  (if truthy (category_id transaction)
                   then detectCategoryAnomaly transaction history cfg else None);
                unusualCategoryAnomaly =
                  detectUnusualCategory transaction history categories cfg;
                frequencyAnomaly =
                  detectFrequencyAnomaly transaction historicalTransactions cfg
            in opt_list highAmountAnomaly @ opt_list categoryAnomaly
               @ opt_list unusualCategoryAnomaly @ opt_list frequencyAnomaly))"

section \<open>Auto-categorization service (\<open>services/autocategory.ts\<close>)\<close>

subsection \<open>Strings\<close>

text \<open>The white space of \<open>\s\<close> and of \<open>trim\<close>, and the line terminators that the
  regular expression \<open>.\<close> does not match.\<close>

definition is_whitespace :: "nat \<Rightarrow> bool" where
  "is_whitespace c =
     ((9 \<le> c \<and> c \<le> 13) \<or> c = 32 \<or> c = 160 \<or> c = 5760 \<or> (8192 \<le> c \<and> c \<le> 8202)
      \<or> c = 8232 \<or> c = 8233 \<or> c = 8239 \<or> c = 8287 \<or> c = 12288 \<or> c = 65279)"

definition is_line_terminator :: "nat \<Rightarrow> bool" where
  "is_line_terminator c = (c = 10 \<or> c = 13 \<or> c = 8232 \<or> c = 8233)"

definition trim :: "jsstring \<Rightarrow> jsstring" where
  "trim s = rev (dropWhile is_whitespace (rev (dropWhile is_whitespace s)))"

text \<open>
  \<open>toLowerCase\<close> on the Latin and Cyrillic capitals, and on the two other code units
  whose lower case contains a letter that \<open>normalizeText\<close> keeps (the Kelvin sign and
  the dotted capital I).  The letters of other alphabets are left as they are: in
  \<open>normalizeText\<close> the next step replaces them by a space, in either case.
\<close>

definition lower_unit :: "nat \<Rightarrow> jsstring" where
  "lower_unit c =
     (if 65 \<le> c \<and> c \<le> 90 then [c + 32]
      else if 1040 \<le> c \<and> c \<le> 1071 then [c + 32]
      else if 1024 \<le> c \<and> c \<le> 1039 then [c + 80]
      else if c = 8490 then [107]
      else if c = 304 then [105, 775]
      else [c])"

definition toLowerCase :: "jsstring \<Rightarrow> jsstring" where
  "toLowerCase s = concat (map lower_unit s)"

text \<open>The characters that \<open>normalizeText\<close> keeps: the small Latin letters, the small
  Cyrillic letters from U+0430 to U+044F, the digits and the white space.\<close>

definition kept_char :: "nat \<Rightarrow> bool" where
  "kept_char c =
     ((97 \<le> c \<and> c \<le> 122) \<or> (1072 \<le> c \<and> c \<le> 1103) \<or> (48 \<le> c \<and> c \<le> 57)
      \<or> is_whitespace c)"

text \<open>\<open>replace(/\s+/g, ' ')\<close>; the flag says that the previous character was white
  space.\<close>

fun collapse_whitespace :: "bool \<Rightarrow> jsstring \<Rightarrow> jsstring" where
  "collapse_whitespace prev [] = []"
| "collapse_whitespace prev (c # cs) =
     (if is_whitespace c
      then (if prev then collapse_whitespace True cs else 32 # collapse_whitespace True cs)
      else c # collapse_whitespace False cs)"

definition normalizeText :: "jsstring \<Rightarrow> jsstring" where
  "normalizeText text =
     trim (collapse_whitespace False
       (map (\<lambda>c. if kept_char c then c else 32)
         (map (\<lambda>c. if c = 1105 then 1077 else c)
           (toLowerCase text))))"

fun is_prefix :: "jsstring \<Rightarrow> jsstring \<Rightarrow> bool" where
  "is_prefix [] s = True"
| "is_prefix (k # ks) [] = False"
| "is_prefix (k # ks) (c # cs) = (k = c \<and> is_prefix ks cs)"

text \<open>\<open>s.includes(k)\<close>.\<close>

fun str_includes :: "jsstring \<Rightarrow> jsstring \<Rightarrow> bool" where
  "str_includes [] k = (k = [])"
| "str_includes (c # cs) k = (is_prefix k (c # cs) \<or> str_includes cs k)"

subsection \<open>Rule patterns\<close>

text \<open>
  \<open>matchesPattern\<close> escapes every character of the pattern that is special in a regular
  expression and then turns the escaped \<open>*\<close> into \<open>.*\<close> and the escaped \<open>?\<close> into
  \<open>.\<close>.  The regular expression is therefore a sequence of literal characters and
  wild cards; it is always well formed, so the \<open>catch\<close> branch is never taken.  It is
  searched anywhere in the text, ignoring case.
\<close>

datatype glob = Lit nat | AnyOne | AnyMany

definition glob_of :: "nat \<Rightarrow> glob" where
  "glob_of c = (if c = 42 then AnyMany else if c = 63 then AnyOne else Lit c)"

text \<open>The case folding of the flag \<open>i\<close>, on the Latin and Cyrillic letters (other code
  units are compared as they are).\<close>

definition canonicalize :: "nat \<Rightarrow> nat" where
  "canonicalize c =
     (if 97 \<le> c \<and> c \<le> 122 then c - 32
      else if 1072 \<le> c \<and> c \<le> 1103 then c - 32
      else if 1104 \<le> c \<and> c \<le> 1119 then c - 80
      else c)"

fun match_here :: "glob list \<Rightarrow> jsstring \<Rightarrow> bool" where
  "match_here [] s = True"
| "match_here (Lit p # gs) [] = False"
| "match_here (Lit p # gs) (c # cs) = (canonicalize c = canonicalize p \<and> match_here gs cs)"
| "match_here (AnyOne # gs) [] = False"
| "match_here (AnyOne # gs) (c # cs) = (\<not> is_line_terminator c \<and> match_here gs cs)"
| "match_here (AnyMany # gs) [] = match_here gs []"
| "match_here (AnyMany # gs) (c # cs) =
     (match_here gs (c # cs) \<or> (\<not> is_line_terminator c \<and> match_here (AnyMany # gs) cs))"

fun match_anywhere :: "glob list \<Rightarrow> jsstring \<Rightarrow> bool" where
  "match_anywhere gs [] = match_here gs []"
| "match_anywhere gs (c # cs) = (match_here gs (c # cs) \<or> match_anywhere gs cs)"

definition matchesPattern :: "jsstring \<Rightarrow> jsstring \<Rightarrow> bool" where
  "matchesPattern text pat = match_anywhere (map glob_of pat) text"

subsection \<open>Similarity\<close>

text \<open>\<open>calculateSimilarity\<close>: the Sorensen-Dice coefficient of the two sets of
  bigrams.  Two different strings of one character have no bigrams, and the quotient is
  \<open>0 / 0\<close>.\<close>

definition bigrams :: "jsstring \<Rightarrow> (nat \<times> nat) list" where
  "bigrams a = remdups (zip a (tl a))"

definition calculateSimilarity :: "jsstring \<Rightarrow> jsstring \<Rightarrow> jsnum" where
  "calculateSimilarity a b =
     (if a = b then Fin 1
      else if length a = 0 \<or> length b = 0 then Fin 0
      else
        (let bigramsA = bigrams a;
             bigramsB = bigrams b;
             intersection = length (filter (\<lambda>g. g \<in> set bigramsB) bigramsA)
         in jsdiv (2 * real intersection) (real (length bigramsA + length bigramsB))))"

definition areSimilar :: "jsstring \<Rightarrow> jsstring \<Rightarrow> bool" where
  "areSimilar a b = (str_includes a b \<or> str_includes b a \<or> jsge (calculateSimilarity a b) 0.7)"

subsection \<open>Objects used as dictionaries\<close>

text \<open>
  A record \<open>Record<string, V>\<close> is kept as the list of its properties in the order of
  their creation.  \<open>Object.values\<close> and \<open>Object.entries\<close> list the keys that are array
  indices first, in ascending order, and then the other keys in the order of their
  creation.
\<close>

definition is_array_index :: "jsstring \<Rightarrow> bool" where
  "is_array_index k =
     (k \<noteq> [] \<and> (k = [48] \<or> hd k \<noteq> 48)
      \<and> (case digits_value 0 k of None \<Rightarrow> False | Some v \<Rightarrow> v < 4294967295))"

definition index_value :: "jsstring \<Rightarrow> int" where
  "index_value k = (case digits_value 0 k of None \<Rightarrow> 0 | Some v \<Rightarrow> v)"

definition own_entries :: "(jsstring \<times> 'v) list \<Rightarrow> (jsstring \<times> 'v) list" where
  "own_entries r =
     sort_key (\<lambda>e. index_value (fst e)) (filter (\<lambda>e. is_array_index (fst e)) r)
     @ filter (\<lambda>e. \<not> is_array_index (fst e)) r"

text \<open>\<open>counts[k] = (counts[k] || 0) + 1\<close>.\<close>

fun bump :: "jsstring \<Rightarrow> (jsstring \<times> nat) list \<Rightarrow> (jsstring \<times> nat) list" where
  "bump k [] = [(k, 1)]"
| "bump k ((k', n) # r) = (if k = k' then (k', n + 1) # r else (k', n) # bump k r)"

fun bump_in ::
  "jsstring \<Rightarrow> jsstring \<Rightarrow> (jsstring \<times> (jsstring \<times> nat) list) list
     \<Rightarrow> (jsstring \<times> (jsstring \<times> nat) list) list" where
  "bump_in d k [] = [(d, [(k, 1)])]"
| "bump_in d k ((d', counts) # r) =
     (if d = d' then (d', bump k counts) # r else (d', counts) # bump_in d k r)"

subsection \<open>Matches\<close>

datatype MatchType = keyword_match | pattern_match | history_match | fuzzy_match

record MatchResult =
  categoryId :: jsstring
  categoryName :: jsstring
  confidence :: real
  matchedKeyword :: "jsstring option"
  matchType :: MatchType

record CategoryRule =
  r_category_id :: jsstring
  pattern :: jsstring
  priority :: real

record Alternative =
  alt_category_id :: jsstring
  alt_category_name :: jsstring
  alt_confidence :: real

record CategoryPrediction =
  p_category_id :: jsstring
  p_category_name :: jsstring
  p_confidence :: real
  alternative :: "Alternative option"

text \<open>The built-in keyword table, in the order of the source.\<close>

definition DEFAULT_KEYWORDS :: "(jsstring \<times> jsstring list) list" where
  "DEFAULT_KEYWORDS =
    [
     ([1087, 1088, 1086, 1076, 1091, 1082, 1090, 1099],
       [[1084, 1072, 1075, 1085, 1080, 1090],
        [1087, 1103, 1090, 1105, 1088, 1086, 1095, 1082, 1072],
        [1087, 1103, 1090, 1077, 1088, 1086, 1095, 1082, 1072],
        [1087, 1077, 1088, 1077, 1082, 1088, 1105, 1089, 1090, 1086, 1082],
        [1087, 1077, 1088, 1077, 1082, 1088, 1077, 1089, 1090, 1086, 1082],
        [1072, 1096, 1072, 1085], [1083, 1077, 1085, 1090, 1072], [1076, 1080, 1082, 1089, 1080],
        [1074, 1082, 1091, 1089, 1074, 1080, 1083, 1083],
        [1072, 1079, 1073, 1091, 1082, 1072, 32, 1074, 1082, 1091, 1089, 1072],
        [109, 101, 116, 114, 111], [1086, 1082, 1077, 1081],
        [1082, 1072, 1088, 1091, 1089, 1077, 1083, 1100],
        [1089, 1091, 1087, 1077, 1088, 1084, 1072, 1088, 1082, 1077, 1090],
        [1087, 1088, 1086, 1076, 1091, 1082, 1090, 1099],
        [1075, 1080, 1087, 1077, 1088, 1084, 1072, 1088, 1082, 1077, 1090], [115, 112, 97, 114],
        [1073, 1080, 1083, 1083, 1072], [98, 105, 108, 108, 97],
        [102, 105, 120, 112, 114, 105, 99, 101],
        [1092, 1080, 1082, 1089, 1087, 1088, 1072, 1081, 1089]]),
     ([1090, 1088, 1072, 1085, 1089, 1087, 1086, 1088, 1090],
       [[1103, 1085, 1076, 1077, 1082, 1089, 32, 1090, 1072, 1082, 1089, 1080],
        [117, 98, 101, 114], [103, 101, 116, 116],
        [1089, 1080, 1090, 1080, 1084, 1086, 1073, 1080, 1083], [1090, 1072, 1082, 1089, 1080],
        [1084, 1077, 1090, 1088, 1086], [1073, 1077, 1085, 1079, 1080, 1085], [1072, 1079, 1089],
        [1083, 1091, 1082, 1086, 1081, 1083], [1075, 1072, 1079, 1087, 1088, 1086, 1084],
        [1088, 1086, 1089, 1085, 1077, 1092, 1090, 1100], [115, 104, 101, 108, 108], [98, 112],
        [1087, 1072, 1088, 1082, 1086, 1074, 1082, 1072], [1084, 1086, 1081, 1082, 1072],
        [1072, 1074, 1090, 1086, 1084, 1086, 1081, 1082, 1072],
        [1096, 1080, 1085, 1086, 1084, 1086, 1085, 1090, 1072, 1078],
        [1072, 1074, 1090, 1086, 1089, 1077, 1088, 1074, 1080, 1089], [1088, 1078, 1076],
        [1072, 1101, 1088, 1086, 1092, 1083, 1086, 1090], [115, 55],
        [1087, 1086, 1073, 1077, 1076, 1072], [1073, 1080, 1083, 1077, 1090],
        [1082, 1072, 1088, 1096, 1077, 1088, 1080, 1085, 1075],
        [1103, 1085, 1076, 1077, 1082, 1089, 32, 1076, 1088, 1072, 1081, 1074],
        [1076, 1077, 1083, 1080, 1084, 1086, 1073, 1080, 1083, 1100], [98, 101, 108, 107, 97],
        [1090, 1088, 1072, 1085, 1089, 1087]]),
     ([1088, 1077, 1089, 1090, 1086, 1088, 1072, 1085, 1099],
       [[1082, 1072, 1092, 1077], [1088, 1077, 1089, 1090, 1086, 1088, 1072, 1085],
        [1073, 1072, 1088], [1087, 1080, 1094, 1094, 1077, 1088, 1080, 1103],
        [1089, 1091, 1096, 1080], [1073, 1091, 1088, 1075, 1077, 1088],
        [1084, 1072, 1082, 1076, 1086, 1085, 1072, 1083, 1076, 1089],
        [109, 99, 100, 111, 110, 97, 108, 100, 115], [107, 102, 99],
        [1073, 1091, 1088, 1075, 1077, 1088, 32, 1082, 1080, 1085, 1075],
        [98, 117, 114, 103, 101, 114, 32, 107, 105, 110, 103], [115, 117, 98, 119, 97, 121],
        [112, 105, 122, 122, 97], [1087, 1080, 1094, 1094, 1072], [99, 111, 102, 102, 101, 101],
        [1082, 1086, 1092, 1077], [115, 116, 97, 114, 98, 117, 99, 107, 115],
        [1103, 1082, 1080, 1090, 1086, 1088, 1080, 1103], [1090, 1072, 1085, 1091, 1082, 1080],
        [100, 101, 108, 105, 118, 101, 114, 121, 32, 99, 108, 117, 98],
        [1103, 1085, 1076, 1077, 1082, 1089, 32, 1077, 1076, 1072],
        [1089, 1072, 1084, 1086, 1082, 1072, 1090],
        [1089, 1073, 1077, 1088, 1084, 1072, 1088, 1082, 1077, 1090],
        [1076, 1086, 1089, 1090, 1072, 1074, 1082, 1072, 32, 1077, 1076, 1099]]),
     ([1088, 1072, 1079, 1074, 1083, 1077, 1095, 1077, 1085, 1080, 1103],
       [[1082, 1080, 1085, 1086], [99, 105, 110, 101, 109, 97], [1090, 1077, 1072, 1090, 1088],
        [1082, 1086, 1085, 1094, 1077, 1088, 1090], [1084, 1091, 1079, 1077, 1081],
        [1074, 1099, 1089, 1090, 1072, 1074, 1082, 1072], [110, 101, 116, 102, 108, 105, 120],
        [115, 112, 111, 116, 105, 102, 121], [121, 111, 117, 116, 117, 98, 101],
        [97, 112, 112, 108, 101, 32, 109, 117, 115, 105, 99],
        [1087, 1086, 1076, 1087, 1080, 1089, 1082, 1072], [115, 116, 101, 97, 109],
        [112, 108, 97, 121, 115, 116, 97, 116, 105, 111, 110], [120, 98, 111, 120],
        [1080, 1075, 1088, 1072], [103, 97, 109, 101],
        [1082, 1080, 1085, 1086, 1087, 1086, 1080, 1089, 1082], [1080, 1074, 1080],
        [111, 107, 107, 111], [112, 114, 101, 109, 105, 101, 114],
        [109, 111, 114, 101, 46, 116, 118], [1073, 1080, 1083, 1077, 1090]]),
     ([1086, 1076, 1077, 1078, 1076, 1072],
       [[122, 97, 114, 97], [104, 38, 109], [104, 109], [117, 110, 105, 113, 108, 111],
        [114, 101, 115, 101, 114, 118, 101, 100],
        [109, 97, 115, 115, 105, 109, 111, 32, 100, 117, 116, 116, 105],
        [98, 101, 114, 115, 104, 107, 97], [112, 117, 108, 108, 38, 98, 101, 97, 114],
        [109, 97, 110, 103, 111], [1086, 1076, 1077, 1078, 1076, 1072],
        [1086, 1073, 1091, 1074, 1100], [97, 100, 105, 100, 97, 115], [110, 105, 107, 101],
        [112, 117, 109, 97], [114, 101, 101, 98, 111, 107],
        [1089, 1087, 1086, 1088, 1090, 1084, 1072, 1089, 1090, 1077, 1088],
        [1076, 1077, 1082, 1072, 1090, 1083, 1086, 1085],
        [114, 101, 110, 100, 101, 122, 45, 118, 111, 117, 115], [101, 99, 99, 111],
        [107, 97, 114, 105], [114, 101, 115, 112, 101, 99, 116],
        [119, 105, 108, 100, 98, 101, 114, 114, 105, 101, 115], [108, 97, 109, 111, 100, 97],
        [119, 98]]),
     ([1079, 1076, 1086, 1088, 1086, 1074, 1100, 1077],
       [[1072, 1087, 1090, 1077, 1082, 1072], [112, 104, 97, 114, 109, 97, 99, 121],
        [1083, 1077, 1082, 1072, 1088, 1089, 1090, 1074, 1086],
        [1074, 1080, 1090, 1072, 1084, 1080, 1085, 1099],
        [1082, 1083, 1080, 1085, 1080, 1082, 1072],
        [1087, 1086, 1083, 1080, 1082, 1083, 1080, 1085, 1080, 1082, 1072],
        [1074, 1088, 1072, 1095], [1076, 1086, 1082, 1090, 1086, 1088],
        [1072, 1085, 1072, 1083, 1080, 1079, 1099],
        [1089, 1090, 1086, 1084, 1072, 1090, 1086, 1083, 1086, 1075],
        [1075, 1086, 1089, 1088, 1090, 1086, 1083, 1086, 1075],
        [1086, 1082, 1091, 1083, 1080, 1089, 1090],
        [1084, 1077, 1076, 1080, 1094, 1080, 1085, 1089, 1082, 1080, 1081],
        [1079, 1076, 1086, 1088, 1086, 1074, 1100, 1077], [1084, 1077, 1076, 1089, 1080],
        [1080, 1085, 1074, 1080, 1090, 1088, 1086],
        [1075, 1077, 1084, 1086, 1090, 1077, 1089, 1090],
        [1083, 1072, 1073, 1086, 1088, 1072, 1090, 1086, 1088, 1080, 1103]]),
     ([1082, 1086, 1084, 1084, 1091, 1085, 1072, 1083, 1082, 1072],
       [[1078, 1082, 1093], [1082, 1074, 1072, 1088, 1090, 1087, 1083, 1072, 1090, 1072],
        [1101, 1083, 1077, 1082, 1090, 1088, 1080, 1095, 1077, 1089, 1090, 1074, 1086],
        [1075, 1072, 1079], [1074, 1086, 1076, 1072],
        [1086, 1090, 1086, 1087, 1083, 1077, 1085, 1080, 1077],
        [1080, 1085, 1090, 1077, 1088, 1085, 1077, 1090],
        [1090, 1077, 1083, 1077, 1092, 1086, 1085],
        [1084, 1086, 1073, 1080, 1083, 1100, 1085, 1072, 1103, 32, 1089, 1074, 1103, 1079, 1100],
        [1084, 1090, 1089], [1073, 1080, 1083, 1072, 1081, 1085],
        [1084, 1077, 1075, 1072, 1092, 1086, 1085], [1090, 1077, 1083, 1077, 50],
        [116, 101, 108, 101, 50], [1088, 1086, 1089, 1090, 1077, 1083, 1077, 1082, 1086, 1084],
        [1072, 1088, 1077, 1085, 1076, 1072], [114, 101, 110, 116]]),
     ([1086, 1073, 1088, 1072, 1079, 1086, 1074, 1072, 1085, 1080, 1077],
       [[1082, 1091, 1088, 1089], [1086, 1073, 1091, 1095, 1077, 1085, 1080, 1077],
        [1096, 1082, 1086, 1083, 1072],
        [1091, 1085, 1080, 1074, 1077, 1088, 1089, 1080, 1090, 1077, 1090],
        [1082, 1085, 1080, 1075, 1072], [1091, 1095, 1077, 1073, 1085, 1080, 1082],
        [115, 107, 105, 108, 108, 98, 111, 120],
        [103, 101, 101, 107, 98, 114, 97, 105, 110, 115],
        [1085, 1077, 1090, 1086, 1083, 1086, 1075, 1080, 1103],
        [99, 111, 117, 114, 115, 101, 114, 97], [117, 100, 101, 109, 121],
        [1083, 1080, 1090, 1088, 1077, 1089], [1082, 1085, 1080, 1078, 1085, 1099, 1081],
        [1073, 1080, 1073, 1083, 1080, 1086, 1090, 1077, 1082, 1072]]),
     ([1082, 1088, 1072, 1089, 1086, 1090, 1072],
       [[1089, 1072, 1083, 1086, 1085],
        [1087, 1072, 1088, 1080, 1082, 1084, 1072, 1093, 1077, 1088, 1089, 1082, 1072, 1103],
        [1073, 1072, 1088, 1073, 1077, 1088, 1096, 1086, 1087],
        [1084, 1072, 1085, 1080, 1082, 1102, 1088], [1087, 1077, 1076, 1080, 1082, 1102, 1088],
        [115, 112, 97], [1089, 1087, 1072], [1084, 1072, 1089, 1089, 1072, 1078],
        [1082, 1086, 1089, 1084, 1077, 1090, 1080, 1082, 1072],
        [1083, 39, 1101, 1090, 1091, 1072, 1083, 1100], [108, 101, 116, 117, 97, 108],
        [1088, 1080, 1074, 32, 1075, 1086, 1096],
        [1080, 1083, 1100, 32, 1076, 1077, 32, 1073, 1086, 1090, 1101],
        [1079, 1086, 1083, 1086, 1090, 1086, 1077, 32, 1103, 1073, 1083, 1086, 1082, 1086],
        [115, 101, 112, 104, 111, 114, 97]]),
     ([1079, 1072, 1088, 1087, 1083, 1072, 1090, 1072],
       [[1079, 1072, 1088, 1087, 1083, 1072, 1090, 1072], [1079, 1087],
        [1072, 1074, 1072, 1085, 1089], [1086, 1082, 1083, 1072, 1076],
        [1087, 1088, 1077, 1084, 1080, 1103], [1073, 1086, 1085, 1091, 1089],
        [115, 97, 108, 97, 114, 121]]),
     ([1092, 1088, 1080, 1083, 1072, 1085, 1089],
       [[1092, 1088, 1080, 1083, 1072, 1085, 1089], [102, 114, 101, 101, 108, 97, 110, 99, 101],
        [1087, 1088, 1086, 1077, 1082, 1090], [1079, 1072, 1082, 1072, 1079],
        [1082, 1086, 1085, 1090, 1088, 1072, 1082, 1090],
        [1075, 1086, 1085, 1086, 1088, 1072, 1088]]),
     ([1082, 1101, 1096, 1073, 1101, 1082],
       [[1082, 1101, 1096, 1073, 1101, 1082], [99, 97, 115, 104, 98, 97, 99, 107],
        [1074, 1086, 1079, 1074, 1088, 1072, 1090], [114, 101, 102, 117, 110, 100],
        [1073, 1086, 1085, 1091, 1089, 1099]])]"

text \<open>
  The tally of \<open>findHistoricalMatch\<close>.  A transaction without description or category
  is skipped.  For the description \<open>constructor\<close> the lookup
  \<open>descriptionCounts[normalized]\<close> finds the property every object inherits, so no
  entry is created and the transaction does not reach the tally.  (Category ids are
  identifiers that name no inherited property.)
\<close>

definition inherited_key :: jsstring where
  "inherited_key = S ''constructor''"

fun descriptionCounts_of ::
  "jsstring \<Rightarrow> Transaction list \<Rightarrow> (jsstring \<times> (jsstring \<times> nat) list) list
     \<Rightarrow> (jsstring \<times> (jsstring \<times> nat) list) list" where
  "descriptionCounts_of desc [] acc = acc"
| "descriptionCounts_of desc (t # ts) acc =
     (if \<not> truthy (description t) \<or> \<not> truthy (category_id t)
      then descriptionCounts_of desc ts acc
      else
        (let normalized = normalizeText (the (description t))
         in if areSimilar desc normalized \<and> normalized \<noteq> inherited_key
            then descriptionCounts_of desc ts (bump_in normalized (the (category_id t)) acc)
            else descriptionCounts_of desc ts acc))"

text \<open>The search for the most common category: a later count replaces the best one only
  when it is strictly larger.\<close>

fun best_count :: "(jsstring \<times> nat) list \<Rightarrow> (jsstring \<times> nat) option \<Rightarrow> (jsstring \<times> nat) option" where
  "best_count [] best = best"
| "best_count ((k, n) # r) best =
     best_count r
       (case best of
          None \<Rightarrow> Some (k, n)
        | Some (k', n') \<Rightarrow> if n > n' then Some (k, n) else best)"

definition findHistoricalMatch ::
  "jsstring \<Rightarrow> Transaction list \<Rightarrow> Category list \<Rightarrow> MatchResult option" where
  "findHistoricalMatch desc transactions categories =
     (let descriptionCounts = descriptionCounts_of desc transactions [];
          entries = concat (map (\<lambda>e. own_entries (snd e)) (own_entries descriptionCounts));
          totalCount = sum_list (map snd entries)
      in case best_count entries None of
           None \<Rightarrow> None
         | Some (bestId, bestCount) \<Rightarrow>
             (if bestCount < 2 then None
              else
                (case find (\<lambda>c. c_id c = bestId) categories of
                   None \<Rightarrow> None
                 | Some category \<Rightarrow>
                     Some \<lparr>categoryId = c_id category, categoryName = c_name category,
                           confidence = min 0.9 (0.5 + (real bestCount / real totalCount) * 0.4),
                           matchedKeyword = None, matchType = history_match\<rparr>)))"

text \<open>\<open>fuzzyMatchCategory\<close>: the loop keeps the first category of the highest score
  above 0.6.\<close>

fun fuzzy_best ::
  "jsstring \<Rightarrow> Category list \<Rightarrow> (Category \<times> real) option \<Rightarrow> (Category \<times> real) option" where
  "fuzzy_best desc [] best = best"
| "fuzzy_best desc (c # cs) best =
     fuzzy_best desc cs
       (case calculateSimilarity desc (normalizeText (c_name c)) of
          Fin sc \<Rightarrow>
            (if sc > 0.6 \<and> (case best of None \<Rightarrow> True | Some (c', sc') \<Rightarrow> sc > sc')
             then Some (c, sc) else best)
        | PInf \<Rightarrow> best
        | NInf \<Rightarrow> best
        | NaN \<Rightarrow> best)"

definition fuzzyMatchCategory :: "jsstring \<Rightarrow> Category list \<Rightarrow> MatchResult option" where
  "fuzzyMatchCategory desc categories =
     (case fuzzy_best desc categories None of
        None \<Rightarrow> None
      | Some (category, sc) \<Rightarrow>
          Some \<lparr>categoryId = c_id category, categoryName = c_name category,
                confidence = sc * 0.6, matchedKeyword = None, matchType = fuzzy_match\<rparr>)"

subsection \<open>\<open>predictCategory\<close>\<close>

text \<open>Step 1: the rules in descending priority (a stable sort); the first rule that
  matches and whose category exists ends the loop.\<close>

fun rule_match :: "jsstring \<Rightarrow> Category list \<Rightarrow> CategoryRule list \<Rightarrow> MatchResult option" where
  "rule_match normalizedDesc categories [] = None"
| "rule_match normalizedDesc categories (r # rs) =
     (if matchesPattern normalizedDesc (pattern r)
      then
        (case find (\<lambda>c. c_id c = r_category_id r) categories of
           Some category \<Rightarrow>
             Some \<lparr>categoryId = c_id category, categoryName = c_name category,
                   confidence = 0.95, matchedKeyword = Some (pattern r),
                   matchType = pattern_match\<rparr>
         | None \<Rightarrow> rule_match normalizedDesc categories rs)
      else rule_match normalizedDesc categories rs)"

text \<open>Step 2: for each category, its first keyword found in the description.\<close>

definition category_keyword_match :: "jsstring \<Rightarrow> Category \<Rightarrow> MatchResult list" where
  "category_keyword_match normalizedDesc category =
     (case find (\<lambda>k. str_includes normalizedDesc (normalizeText k)) (c_keywords category) of
        None \<Rightarrow> []
      | Some k \<Rightarrow>
          [\<lparr>categoryId = c_id category, categoryName = c_name category, confidence = 0.85,
            matchedKeyword = Some k, matchType = keyword_match\<rparr>])"

text \<open>Step 3: for each entry of the built-in table, its first keyword found in the
  description; the match counts when a category of that name exists and is not among the
  matches yet.\<close>

definition default_keyword_step ::
  "jsstring \<Rightarrow> Category list \<Rightarrow> MatchResult list \<Rightarrow> jsstring \<times> jsstring list
     \<Rightarrow> MatchResult list" where
  "default_keyword_step normalizedDesc categories matches entry =
     (case find (\<lambda>k. str_includes normalizedDesc (normalizeText k)) (snd entry) of
        None \<Rightarrow> matches
      | Some k \<Rightarrow>
          (case find (\<lambda>c. normalizeText (c_name c) = normalizeText (fst entry)) categories of
             None \<Rightarrow> matches
           | Some category \<Rightarrow>
               (if list_ex (\<lambda>m. categoryId m = c_id category) matches then matches
                else matches @
                  [\<lparr>categoryId = c_id category, categoryName = c_name category,
                    confidence = 0.75, matchedKeyword = Some k,
                    matchType = keyword_match\<rparr>])))"

text \<open>The matches collected by the five steps, in the order in which they are
  pushed.\<close>

definition collect_matches ::
  "jsstring \<Rightarrow> Category list \<Rightarrow> Transaction list \<Rightarrow> CategoryRule list \<Rightarrow> MatchResult list" where
  "collect_matches normalizedDesc categories historicalTransactions customRules =
     (let rules = sort_key (\<lambda>r. - priority r) customRules;
          matches1 = opt_list (rule_match normalizedDesc categories rules);
          matches2 = matches1 @ concat (map (category_keyword_match normalizedDesc) categories);
          matches3 = foldl (default_keyword_step normalizedDesc categories) matches2
                       DEFAULT_KEYWORDS;
          matches4 = matches3 @ opt_list (findHistoricalMatch normalizedDesc
                                            historicalTransactions categories)
      in if matches4 = [] then opt_list (fuzzyMatchCategory normalizedDesc categories)
         else matches4)"

text \<open>\<open>predictCategory\<close>: the matches are sorted by descending confidence (a stable
  sort); the first is the prediction, the second its alternative.\<close>

definition predictCategory ::
  "jsstring \<Rightarrow> Category list \<Rightarrow> Transaction list \<Rightarrow> CategoryRule list
     \<Rightarrow> CategoryPrediction option" where
  "predictCategory desc categories historicalTransactions customRules =
     (if trim desc = [] then None
      else
        (let normalizedDesc = normalizeText desc;
             matches = collect_matches normalizedDesc categories historicalTransactions
                         customRules
         in case sort_key (\<lambda>m. - confidence m) matches of
              [] \<Rightarrow> None
            | best # rest \<Rightarrow>
                Some \<lparr>p_category_id = categoryId best,
                      p_category_name = categoryName best,
                      p_confidence = confidence best,
                      alternative =
                        (case rest of
                           [] \<Rightarrow> None
                         | alt # _ \<Rightarrow>
                             Some \<lparr>alt_category_id = categoryId alt,
                                   alt_category_name = categoryName alt,
                                   alt_confidence = confidence alt\<rparr>)\<rparr>))"

section \<open>Concrete inputs\<close>

text \<open>The clock reading 2024-03-10T00:00:00.000Z.\<close>

definition clock_2024_03_10 :: int where
  "clock_2024_03_10 = 1710028800000"

text \<open>An expense of 500 in the category \<open>food\<close> on 2024-03-05, and an active budget of
  100 with no category.\<close>

definition food_expense :: Transaction where
  "food_expense =
     \<lparr>tx_id = S ''t1'', tx_type = expense, amount = 500, date = S ''2024-03-05'',
      category_id = Some (S ''food''), description = None, is_credit = False,
      category_name = None\<rparr>"

definition overall_budget :: Budget where
  "overall_budget =
     \<lparr>b_id = S ''b1'', b_category_id = None, b_name = S ''all'', b_amount = 100,
      alert_threshold = 80, b_is_active = True, b_category_name = None\<rparr>"

text \<open>The metrics of a family without transactions, budgets and goals.\<close>

definition no_activity_metrics :: HealthMetrics where
  "no_activity_metrics =
     \<lparr>total_income = 0, total_expense = 0, net_savings = 0, savings_rate = 0,
      budgets_on_track = 0, budgets_exceeded = 0, budget_adherence_rate = 1,
      avg_daily_expense = 0, expense_volatility = 0, largest_expense = 0,
      credit_usage = 0, credit_ratio = 0, goals_progress = 1, goals_on_track = 0,
      expense_trend = stable_trend, income_trend = stable_trend\<rparr>"



text \<open>An expense of 500 without category on 2024-03-10; eleven incomes of 1000 on the
  same day, with the ids \<open>ha\<close> to \<open>hk\<close>; five expenses of 100 on 2024-03-01, with the
  ids \<open>ea\<close> to \<open>ee\<close>.\<close>

definition new_expense :: Transaction where
  "new_expense =
     \<lparr>tx_id = S ''t0'', tx_type = expense, amount = 500, date = S ''2024-03-10'',
      category_id = None, description = None, is_credit = False, category_name = None\<rparr>"

definition salary_payments :: "Transaction list" where
  "salary_payments =
     map (\<lambda>i. \<lparr>tx_id = [104, 97 + i], tx_type = income, amount = 1000,
                 date = S ''2024-03-10'', category_id = None, description = None,
                 is_credit = False, category_name = None\<rparr>) [0..<11]"


text \<open>Two categories that share the keyword \<open>taxi\<close>, two rules that both match the
  description \<open>taxi\<close>, and a category and a rule that match the empty text (the keyword
  \<open>%\<close> normalizes to the empty string).\<close>

definition taxi_a :: Category where
  "taxi_a = \<lparr>c_id = S ''cat-a'', c_name = S ''Taxi'', c_keywords = [S ''taxi'']\<rparr>"

definition taxi_b :: Category where
  "taxi_b = \<lparr>c_id = S ''cat-b'', c_name = S ''Rides'', c_keywords = [S ''uber'', S ''taxi'']\<rparr>"

definition low_rule :: CategoryRule where
  "low_rule = \<lparr>r_category_id = S ''cat-b'', pattern = S ''taxi'', priority = 1\<rparr>"

definition high_rule :: CategoryRule where
  "high_rule = \<lparr>r_category_id = S ''cat-a'', pattern = S ''tax*'', priority = 5\<rparr>"

definition percent_category :: Category where
  "percent_category = \<lparr>c_id = S ''cat-a'', c_name = S ''Taxi'', c_keywords = [S ''%'']\<rparr>"

definition star_rule :: CategoryRule where
  "star_rule = \<lparr>r_category_id = S ''cat-a'', pattern = S ''*'', priority = 1\<rparr>"

section \<open>Properties of the ML service\<close>

text \<open>
  Claim C8.  On the history \<open>[10,12,11,13,12,10,11,14]\<close> the interpolated quartiles
  are 10.75 and 12.25, and with the default multiplier 1.5 \<open>detectAnomaliesIQR\<close>
  classifies 100 as an anomaly of severity extreme and 13 as no anomaly, severity none.
\<close>

theorem C8_iqr_example:
  "percentile (sort [10, 12, 11, 13, 12, 10, 11, 14]) 25 = 10.75
   \<and> percentile (sort [10, 12, 11, 13, 12, 10, 11, 14]) 75 = 12.25
   \<and> detectAnomaliesIQR 100 [10, 12, 11, 13, 12, 10, 11, 14] iqr_default_multiplier = (True, extreme)
   \<and> detectAnomaliesIQR 13 [10, 12, 11, 13, 12, 10, 11, 14] iqr_default_multiplier = (False, none)"
  by (simp add: detectAnomaliesIQR_def percentile_def iqr_default_multiplier_def Let_def)

text \<open>
  Claim C9.  \<open>linearRegression\<close> raises \<open>InvalidInput\<close> exactly when the two arrays
  differ in length or hold fewer than two points; on equal-length arrays of at least two
  points it returns a result.
\<close>

theorem C9_linearRegression_error_iff:
  "(linearRegression xs ys = Inl InvalidInput \<longleftrightarrow> length xs \<noteq> length ys \<or> length xs < 2)
   \<and> (length xs = length ys \<and> 2 \<le> length xs
        \<longrightarrow> linearRegression xs ys = Inr (regression_body xs ys))"
  by (auto simp: linearRegression_def)

theorem C9_linearRegression_witness:
  "linearRegression [0, 1] [2, 4] \<noteq> Inl InvalidInput
   \<and> linearRegression [0, 1] [2, 4] = Inr (regression_body [0, 1] [2, 4])
   \<and> linearRegression [0, 1] [2] = Inl InvalidInput"
  using C9_linearRegression_error_iff [of "[0, 1]" "[2, 4]"]
    C9_linearRegression_error_iff [of "[0, 1]" "[2]"]
  by simp

text \<open>
  Claim C2 (the code departs from it).  The claim says that \<open>analyzeTrend\<close> never
  yields \<open>NaN\<close> or \<open>Infinity\<close>, also on a series of mean 0.  The source divides the
  standard deviation by the mean without a guard: on the all-zero series \<open>[0, 0]\<close> the
  volatility is \<open>0 / 0 = NaN\<close>, and on \<open>[-1, 1]\<close> it is \<open>1 / 0 = Infinity\<close>.
\<close>

theorem C2_analyzeTrend_zero_mean:
  "analyzeTrend [0, 0] =
     Inr \<lparr>direction = stable, change_percent = 0, average = 0, t_min = 0, t_max = 0,
          volatility = NaN\<rparr>
   \<and> (\<exists>t. analyzeTrend [- 1, 1] = Inr t \<and> volatility t = PInf)"
  by (simp add: analyzeTrend_def linearRegression_def regression_body_def calculateStdDev_def
      jsdiv_def Math_round_def Let_def upt_rec)

subsection \<open>Examples\<close>

text \<open>The line \<open>y = 2x + 2\<close> is recovered exactly, and a rising series is classified
  as rising.\<close>

lemma linearRegression_on_a_line:
  "linearRegression [0, 1, 2, 3] [2, 4, 6, 8] =
     Inr \<lparr>slope = 2, intercept = 2, r_squared = 1, prediction = 10, lr_confidence = 0.75\<rparr>"
  by (simp add: linearRegression_def regression_body_def Let_def power2_eq_square)

lemma analyzeTrend_on_a_rising_series:
  "\<exists>t. analyzeTrend [100, 200, 300, 400] = Inr t \<and> direction t = up
       \<and> change_percent t = 133.3 \<and> average t = 250"
  by (simp add: analyzeTrend_def linearRegression_def regression_body_def Let_def upt_rec
      jsdiv_def Math_round_def calculateStdDev_def power2_eq_square)

section \<open>Properties of the financial health service\<close>

subsection \<open>The analysis always returns\<close>

lemma analyzeTrend_total: "\<exists>t. analyzeTrend vs = Inr t"
  by (simp add: analyzeTrend_def linearRegression_def Let_def)





subsection \<open>The range of the scores\<close>










subsection \<open>The empty input\<close>

text \<open>Without transactions, budgets and goals the overall score is 69 at every clock
  reading: the sub-scores are 20, 70, 100 and 100.\<close>

lemma no_daily_expenses: "calculateDailyExpenses [] = Inr []"
  by (simp add: calculateDailyExpenses_def bind_err_def)

lemma no_months: "aggregateMonthly [] = []"
  by (simp add: aggregateMonthly_def)

lemma analyzeTrend_empty:
  "analyzeTrend [] =
     Inr \<lparr>direction = stable, change_percent = 0, average = 0, t_min = 0, t_max = 0,
          volatility = Fin 0\<rparr>"
  by (simp add: analyzeTrend_def)

lemma calculateMetrics_empty: "calculateMetrics now [] [] [] = Inr no_activity_metrics"
  by (simp add: no_activity_metrics_def calculateMetrics_def calculateDailyExpenses_def
      bind_err_def aggregateMonthly_def analyzeTrend_def calculateVolatility_def label_of_def
      Math_round_def)

lemma no_activity_scores:
  "calculateSavingsScore no_activity_metrics = 20"
  "calculateBudgetScore no_activity_metrics = 70"
  "calculateDebtScore no_activity_metrics = 100"
  "calculateStabilityScore no_activity_metrics = 100"
  by (simp_all add: calculateSavingsScore_def calculateBudgetScore_def calculateDebtScore_def
      calculateStabilityScore_def THRESHOLDS_savings_def THRESHOLDS_budget_def
      THRESHOLDS_debt_def THRESHOLDS_stability_def no_activity_metrics_def)

lemma no_activity_overall:
  "Math_round (20 * w_savings WEIGHTS + 70 * w_budget WEIGHTS + 100 * w_debt WEIGHTS
               + 100 * w_stability WEIGHTS) = 69"
  by (simp add: WEIGHTS_def Math_round_def)

lemma grade_of_69: "getGradeInfo 69 = grade_C"
  by (simp add: getGradeInfo_def)

lemma analyzeFinancialHealth_empty:
  "\<exists>h. analyzeFinancialHealth now [] [] [] [] = Inr h \<and> overall (score h) = 69
       \<and> savings (score h) = 20 \<and> budget (score h) = 70 \<and> debt (score h) = 100
       \<and> stability (score h) = 100 \<and> grade (score h) = grade_C"
  by (simp add: analyzeFinancialHealth_def calculateMetrics_empty bind_err_def no_months
      analyzeTrend_empty no_activity_scores no_activity_overall grade_of_69)

subsection \<open>A budget without category\<close>

lemma food_expense_fields:
  "tx_type food_expense = expense" "amount food_expense = 500"
  "category_id food_expense = Some (S ''food'')" "is_credit food_expense = False"
  "date food_expense = S ''2024-03-05''"
  by (simp_all add: food_expense_def)

lemma overall_budget_fields:
  "b_is_active overall_budget" "b_category_id overall_budget = None"
  "b_amount overall_budget = 100" "alert_threshold overall_budget = 80"
  by (simp_all add: overall_budget_def)

lemma parse_2024_03_05: "parseDate (S ''2024-03-05'') = Some 1709596800000"
  by code_simp

lemma month_start_2024_03:
  "currentMonthStart clock_2024_03_10 = 1709251200000"
  by code_simp

lemma food_expense_in_month:
  "filter (\<lambda>t. date_ge (date t) 1709251200000) [food_expense] = [food_expense]"
  by (simp add: date_ge_def food_expense_fields parse_2024_03_05)

lemma food_expense_daily: "calculateDailyExpenses [food_expense] = Inr [500]"
  by (simp add: calculateDailyExpenses_def bind_err_def food_expense_fields parse_2024_03_05)

lemma overall_budget_spent: "budget_spent [food_expense] overall_budget = 0"
  by (simp add: budget_spent_def food_expense_fields overall_budget_fields)

text \<open>
  Claim C4 (the code departs from it).  The claim says that a budget without a category
  counts every expense of the period.  The source compares \<open>t.category_id\<close> with the
  absent \<open>budget.category_id\<close>, so only expenses that have no category are counted:
  with one expense of 500 in the category \<open>food\<close> and one budget of 100 without a
  category, the amount spent is 0, the budget is on track and no alert is raised.
\<close>

theorem C4_budget_without_category:
  "budget_spent [food_expense] overall_budget = 0
   \<and> (\<exists>m. calculateMetrics clock_2024_03_10 [food_expense] [overall_budget] [] = Inr m
          \<and> total_expense m = 500 \<and> budgets_on_track m = 1 \<and> budgets_exceeded m = 0)
   \<and> getBudgetAlerts [overall_budget] [food_expense] = []"
proof -
  obtain te where te: "analyzeTrend (map m_expense (aggregateMonthly [food_expense])) = Inr te"
    using analyzeTrend_total by blast
  obtain ti where ti: "analyzeTrend (map m_income (aggregateMonthly [food_expense])) = Inr ti"
    using analyzeTrend_total by blast
  have metrics: "\<exists>m. calculateMetrics clock_2024_03_10 [food_expense] [overall_budget] [] = Inr m
          \<and> total_expense m = 500 \<and> budgets_on_track m = 1 \<and> budgets_exceeded m = 0"
    unfolding calculateMetrics_def Let_def month_start_2024_03 food_expense_in_month
    by (simp add: food_expense_fields overall_budget_fields food_expense_daily
        overall_budget_spent te ti bind_err_def)
  have alerts: "getBudgetAlerts [overall_budget] [food_expense] = []"
    by (simp add: getBudgetAlerts_def food_expense_fields overall_budget_fields
        budget_percentage_def jsdiv_def Math_round_def)
  from overall_budget_spent metrics alerts show ?thesis by blast
qed

subsection \<open>The clock in the health score\<close>





section \<open>Properties of the anomaly detection service\<close>

subsection \<open>Two scenarios\<close>

lemma merge_no_config: "merge_config no_config = DEFAULT_CONFIG"
  by (simp add: merge_config_def no_config_def)

lemma new_expense_fields: "tx_type new_expense = expense" "category_id new_expense = None"
  "amount new_expense = 500" "tx_id new_expense = S ''t0''"
  by (simp_all add: new_expense_def)

lemma high_amount_on_empty_history: "detectHighAmount new_expense [] DEFAULT_CONFIG = None"
  by (simp add: detectHighAmount_def DEFAULT_CONFIG_def)

lemma unusual_category_without_category: "detectUnusualCategory new_expense h cs c = None"
  by (simp add: detectUnusualCategory_def new_expense_fields truthy_def)

lemma frequency_on_empty_history: "detectFrequencyAnomaly new_expense [] DEFAULT_CONFIG = None"
  by code_simp

lemma salary_payments_not_relevant: "relevantHistory clock_2024_03_10 DEFAULT_CONFIG new_expense salary_payments = []"
  by code_simp

lemma frequency_on_salary_payments: "detectFrequencyAnomaly new_expense salary_payments DEFAULT_CONFIG =
  Some \<lparr>a_type = frequency, severity = warning, transaction_id = None,
     expected_value = None, actual_value = Some 12, z_score = None,
     a_category = None, historical_average = Some (Fin 0),
     deviation_percent = None\<rparr>"
  by code_simp









subsection \<open>The history that the checks read\<close>

text \<open>
  Claim C5 (the code departs from it).  The claim says that all four checks read only
  the expenses of the lookback window other than the analysed transaction.  The
  frequency check is handed the unfiltered \<open>historicalTransactions\<close>: with eleven
  incomes on the day of the expense the filtered history is empty, on which the check
  finds nothing, yet the result holds a frequency anomaly counting twelve transactions.
\<close>

theorem C5_frequency_check_unfiltered:
  "relevantHistory clock_2024_03_10 (merge_config no_config) new_expense salary_payments = []
   \<and> detectFrequencyAnomaly new_expense [] (merge_config no_config) = None
   \<and> detectTransactionAnomalies clock_2024_03_10 new_expense salary_payments [] no_config =
       [\<lparr>a_type = frequency, severity = warning, transaction_id = None,
         expected_value = None, actual_value = Some 12, z_score = None,
         a_category = None, historical_average = Some (Fin 0),
         deviation_percent = None\<rparr>]"
  by (simp add: detectTransactionAnomalies_def merge_no_config salary_payments_not_relevant frequency_on_salary_payments frequency_on_empty_history
      high_amount_on_empty_history unusual_category_without_category new_expense_fields truthy_def opt_list_def)

subsection \<open>The clock in the anomaly detection\<close>






section \<open>Properties of the auto-categorization service\<close>

subsection \<open>Stable sorting\<close>

text \<open>\<open>sort_key\<close> keeps the order of the elements of equal key.\<close>

lemma sort_key_keeps_order: "filter (\<lambda>y. f y = k) (sort_key f xs) = filter (\<lambda>y. f y = k) xs"
  by (rule sort_key_stable)

lemma sort_key_head:
  assumes "\<forall>y\<in>set ys. f x \<le> f y"
  shows "sort_key f (x # ys) = x # sort_key f ys"
  using assms by (simp add: insort_is_Cons)

lemma sort_key_prefix:
  assumes "sorted (map f xs)" "\<forall>x\<in>set xs. \<forall>y\<in>set ys. f x \<le> f y"
  shows "sort_key f (xs @ ys) = xs @ sort_key f ys"
  using assms
proof (induction xs)
  case Nil
  then show ?case by simp
next
  case (Cons a xs)
  have "\<forall>y\<in>set (xs @ ys). f a \<le> f y" using Cons.prems by auto
  then have "sort_key f (a # (xs @ ys)) = a # sort_key f (xs @ ys)"
    by (rule sort_key_head)
  with Cons show ?case by simp
qed


lemma find_Some_member: "find P xs = Some w \<Longrightarrow> P w \<and> w \<in> set xs"
  by (induction xs) (auto split: if_splits)

lemma find_first_sorted:
  assumes "sorted (map f xs)" "find P xs = Some w" "r \<in> set xs" "P r"
  shows "f w \<le> f r"
  using assms by (induction xs) (auto split: if_splits)

subsection \<open>The confidence of the matches\<close>

lemma default_step_extend:
  "\<exists>e1. default_keyword_step nd cats ms entry = ms @ e1
        \<and> (\<forall>e\<in>set e1. confidence e = 0.75)"
  by (auto simp: default_keyword_step_def split: option.splits)

lemma default_steps_extend:
  "\<exists>extra. foldl (default_keyword_step nd cats) ms tbl = ms @ extra
           \<and> (\<forall>e\<in>set extra. confidence e = 0.75)"
proof (induction tbl arbitrary: ms)
  case Nil
  then show ?case by simp
next
  case (Cons entry tbl)
  obtain e1 where e1: "default_keyword_step nd cats ms entry = ms @ e1"
    "\<forall>e\<in>set e1. confidence e = 0.75"
    using default_step_extend by blast
  obtain e2 where e2: "foldl (default_keyword_step nd cats) (ms @ e1) tbl = (ms @ e1) @ e2"
    "\<forall>e\<in>set e2. confidence e = 0.75"
    using Cons.IH by blast
  show ?case
    by (rule exI[of _ "e1 @ e2"]) (use e1 e2 in auto)
qed

lemma keyword_matches_confidence:
  "m \<in> set (concat (map (category_keyword_match nd) cats)) \<Longrightarrow> confidence m = 0.85"
  by (auto simp: category_keyword_match_def split: option.splits)

lemma historical_confidence_form:
  assumes "findHistoricalMatch nd txs cats = Some h"
  shows "\<exists>b t. confidence h = min 0.9 (0.5 + (real b / real t) * 0.4)"
  using assms
  apply (auto simp: findHistoricalMatch_def Let_def split: option.splits if_splits prod.splits)
  apply (intro exI)
  apply (rule refl)
  done

lemma historical_confidence:
  assumes "findHistoricalMatch nd txs cats = Some h"
  shows "0.5 \<le> confidence h \<and> confidence h \<le> 0.9"
proof -
  obtain b t :: nat where c: "confidence h = min 0.9 (0.5 + (real b / real t) * 0.4)"
    using historical_confidence_form[OF assms] by blast
  have "0 \<le> real b / real t" by simp
  then show ?thesis unfolding c by (simp add: min_def)
qed

lemma rule_match_confidence:
  "rule_match nd cats rs = Some m \<Longrightarrow> confidence m = 0.95"
  by (induction rs) (auto split: if_splits option.splits)






subsection \<open>The best match\<close>

lemma predict_best:
  assumes "trim desc \<noteq> []"
    and "collect_matches (normalizeText desc) cats hist rules = m # rest"
    and "\<forall>y\<in>set rest. confidence y \<le> confidence m"
  shows "\<exists>alt. predictCategory desc cats hist rules =
           Some \<lparr>p_category_id = categoryId m, p_category_name = categoryName m,
                 p_confidence = confidence m, alternative = alt\<rparr>"
proof -
  have "\<forall>y\<in>set rest. - confidence m \<le> - confidence y" using assms(3) by simp
  then have "sort_key (\<lambda>m. - confidence m) (m # rest) = m # sort_key (\<lambda>m. - confidence m) rest"
    by (rule sort_key_head)
  then show ?thesis
    using assms(1,2) by (simp add: predictCategory_def Let_def)
qed

lemma rule_match_find:
  "rule_match nd cats rs =
     (case find (\<lambda>r. matchesPattern nd (pattern r)
                      \<and> find (\<lambda>c. c_id c = r_category_id r) cats \<noteq> None) rs of
        None \<Rightarrow> None
      | Some w \<Rightarrow>
          (case find (\<lambda>c. c_id c = r_category_id w) cats of
             None \<Rightarrow> None
           | Some c \<Rightarrow> Some \<lparr>categoryId = c_id c, categoryName = c_name c, confidence = 0.95,
                             matchedKeyword = Some (pattern w), matchType = pattern_match\<rparr>))"
  by (induction rs) (auto split: option.splits)

lemma collect_with_rule:
  assumes "rule_match nd cats (sort_key (\<lambda>r. - priority r) rules) = Some m"
  shows "\<exists>rest. collect_matches nd cats hist rules = m # rest
           \<and> (\<forall>y\<in>set rest. confidence y \<le> confidence m)"
proof -
  define km where "km = concat (map (category_keyword_match nd) cats)"
  obtain extra where extra:
    "foldl (default_keyword_step nd cats) ([m] @ km) DEFAULT_KEYWORDS = ([m] @ km) @ extra"
    "\<forall>e\<in>set extra. confidence e = 0.75"
    using default_steps_extend by blast
  define h where "h = opt_list (findHistoricalMatch nd hist cats)"
  have o: "opt_list (Some m) = [m]" by (simp add: opt_list_def)
  have c: "collect_matches nd cats hist rules = m # (km @ extra @ h)"
    using extra(1)
    by (simp add: collect_matches_def Let_def assms o km_def[symmetric] h_def[symmetric])
  have m: "confidence m = 0.95" using assms by (rule rule_match_confidence)
  have b2: "\<forall>x\<in>set km. confidence x = 0.85"
    unfolding km_def using keyword_matches_confidence by blast
  have b4: "\<forall>x\<in>set h. confidence x \<le> 0.9"
  proof (cases "findHistoricalMatch nd hist cats")
    case None
    then show ?thesis by (simp add: h_def opt_list_def)
  next
    case (Some x)
    with historical_confidence[OF Some] show ?thesis by (simp add: h_def opt_list_def)
  qed
  have "\<forall>y\<in>set (km @ extra @ h). confidence y \<le> confidence m"
  proof
    fix y assume "y \<in> set (km @ extra @ h)"
    then consider "y \<in> set km" | "y \<in> set extra" | "y \<in> set h" by auto
    then show "confidence y \<le> confidence m"
    proof cases
      case 1
      with b2 have "confidence y = 0.85" by blast
      then show ?thesis using m by simp
    next
      case 2
      with extra(2) have "confidence y = 0.75" by blast
      then show ?thesis using m by simp
    next
      case 3
      with b4 have "confidence y \<le> 0.9" by blast
      then show ?thesis using m by simp
    qed
  qed
  with c show ?thesis by blast
qed

lemma winning_rule_prediction:
  assumes "trim desc \<noteq> []"
    and "find (\<lambda>r. matchesPattern (normalizeText desc) (pattern r)
                    \<and> find (\<lambda>c. c_id c = r_category_id r) cats \<noteq> None)
            (sort_key (\<lambda>r. - priority r) rules) = Some w"
  shows "\<exists>p c. predictCategory desc cats hist rules = Some p
      \<and> find (\<lambda>c. c_id c = r_category_id w) cats = Some c
      \<and> p_category_id p = r_category_id w \<and> p_category_name p = c_name c
      \<and> p_confidence p = 0.95"
proof -
  define nd where "nd = normalizeText desc"
  define P where "P = (\<lambda>r::CategoryRule. matchesPattern nd (pattern r)
                      \<and> find (\<lambda>c. c_id c = r_category_id r) cats \<noteq> None)"
  define srt where "srt = sort_key (\<lambda>r. - priority r) rules"
  have w: "find P srt = Some w"
    using assms(2) by (simp add: P_def srt_def nd_def)
  then have "P w" using find_Some_member[of P srt w] by simp
  then obtain c where c: "find (\<lambda>c. c_id c = r_category_id w) cats = Some c"
    by (auto simp: P_def)
  then have cid: "c_id c = r_category_id w"
    using find_Some_member[of "\<lambda>c. c_id c = r_category_id w" cats c] by simp
  define m where "m = \<lparr>categoryId = c_id c, categoryName = c_name c, confidence = 0.95,
                             matchedKeyword = Some (pattern w), matchType = pattern_match\<rparr>"
  have "rule_match nd cats srt = Some m"
    unfolding rule_match_find P_def[symmetric] m_def using w c by simp
  from collect_with_rule[OF this[unfolded srt_def]] obtain rest where
    "collect_matches nd cats hist rules = m # rest" "\<forall>y\<in>set rest. confidence y \<le> confidence m"
    by blast
  from predict_best[OF assms(1) this[unfolded nd_def]] obtain alt where
    "predictCategory desc cats hist rules =
           Some \<lparr>p_category_id = categoryId m, p_category_name = categoryName m,
                 p_confidence = confidence m, alternative = alt\<rparr>" by blast
  with c cid show ?thesis
    unfolding m_def by simp
qed

lemma no_history: "findHistoricalMatch nd [] cats = None"
  by (simp add: findHistoricalMatch_def own_entries_def)

lemma keyword_matches_head:
  assumes "find (\<lambda>c. list_ex (\<lambda>k. str_includes nd (normalizeText k)) (c_keywords c)) cats = Some c0"
  shows "\<exists>k rest. concat (map (category_keyword_match nd) cats) =
           \<lparr>categoryId = c_id c0, categoryName = c_name c0, confidence = 0.85,
            matchedKeyword = Some k, matchType = keyword_match\<rparr> # rest"
  using assms
proof (induction cats)
  case Nil
  then show ?case by simp
next
  case (Cons a cats)
  show ?case
  proof (cases "list_ex (\<lambda>k. str_includes nd (normalizeText k)) (c_keywords a)")
    case True
    then have "find (\<lambda>k. str_includes nd (normalizeText k)) (c_keywords a) \<noteq> None"
      by (auto simp: find_None_iff list_ex_iff)
    then obtain k where "find (\<lambda>k. str_includes nd (normalizeText k)) (c_keywords a) = Some k"
      by blast
    moreover have "c0 = a" using Cons.prems True by simp
    ultimately show ?thesis by (simp add: category_keyword_match_def)
  next
    case False
    then have "find (\<lambda>k. str_includes nd (normalizeText k)) (c_keywords a) = None"
      by (auto simp: find_None_iff list_ex_iff)
    then have "category_keyword_match nd a = []" by (simp add: category_keyword_match_def)
    moreover have "find (\<lambda>c. list_ex (\<lambda>k. str_includes nd (normalizeText k)) (c_keywords c)) cats = Some c0"
      using Cons.prems False by simp
    ultimately show ?thesis using Cons.IH by simp
  qed
qed

lemma collect_keywords_only:
  assumes "concat (map (category_keyword_match nd) cats) = m # ms"
  shows "\<exists>extra. collect_matches nd cats [] [] = m # ms @ extra
           \<and> (\<forall>e\<in>set extra. confidence e = 0.75)"
proof -
  obtain extra where extra:
    "foldl (default_keyword_step nd cats) (m # ms) DEFAULT_KEYWORDS = (m # ms) @ extra"
    "\<forall>e\<in>set extra. confidence e = 0.75"
    using default_steps_extend by blast
  have o: "opt_list None = ([]::MatchResult list)" by (simp add: opt_list_def)
  have "collect_matches nd cats [] [] = m # ms @ extra"
    using extra(1) by (simp add: collect_matches_def Let_def assms o no_history)
  with extra(2) show ?thesis by blast
qed

lemma keyword_prediction:
  assumes "trim desc \<noteq> []"
    and "concat (map (category_keyword_match (normalizeText desc)) cats) = m # ms"
  shows "\<exists>extra. predictCategory desc cats [] [] =
           Some \<lparr>p_category_id = categoryId m, p_category_name = categoryName m,
                 p_confidence = confidence m,
                 alternative = (case ms @ extra of [] \<Rightarrow> None
                    | alt # _ \<Rightarrow> Some \<lparr>alt_category_id = categoryId alt,
                                       alt_category_name = categoryName alt,
                                       alt_confidence = confidence alt\<rparr>)\<rparr>"
proof -
  define nd where "nd = normalizeText desc"
  define f where "f = (\<lambda>m::MatchResult. - confidence m)"
  obtain extra where extra: "collect_matches nd cats [] [] = m # ms @ extra"
    "\<forall>e\<in>set extra. confidence e = 0.75"
    using collect_keywords_only assms(2) unfolding nd_def by blast
  have km: "\<forall>x\<in>set (m # ms). confidence x = 0.85"
    using keyword_matches_confidence[of _ nd cats] assms(2) unfolding nd_def by simp
  have s1: "sorted (map f (m # ms))"
  proof -
    have "map f (m # ms) = replicate (length (m # ms)) (- 0.85)"
      using km by (intro replicate_eqI) (auto simp: f_def)
    then show ?thesis by (simp add: sorted_replicate)
  qed
  have s2: "\<forall>x\<in>set (m # ms). \<forall>y\<in>set extra. f x \<le> f y"
  proof (intro ballI)
    fix x y assume "x \<in> set (m # ms)" "y \<in> set extra"
    then have "confidence x = 0.85" "confidence y = 0.75" using km extra(2) by blast+
    then show "f x \<le> f y" by (simp add: f_def)
  qed
  have "sort_key f ((m # ms) @ extra) = (m # ms) @ sort_key f extra"
    using s1 s2 by (rule sort_key_prefix)
  then have srt: "sort_key f (collect_matches nd cats [] []) = m # ms @ sort_key f extra"
    using extra(1) by simp
  have "predictCategory desc cats [] [] =
           Some \<lparr>p_category_id = categoryId m, p_category_name = categoryName m,
                 p_confidence = confidence m,
                 alternative = (case ms @ sort_key f extra of [] \<Rightarrow> None
                    | alt # _ \<Rightarrow> Some \<lparr>alt_category_id = categoryId alt,
                                       alt_category_name = categoryName alt,
                                       alt_confidence = confidence alt\<rparr>)\<rparr>"
    using assms(1) srt by (simp add: predictCategory_def Let_def nd_def[symmetric] f_def[symmetric])
  then show ?thesis by blast
qed

subsection \<open>Two categories and two rules for one description\<close>

lemmas string_defs = S_def normalizeText_def toLowerCase_def lower_unit_def kept_char_def
  is_whitespace_def trim_def

lemma normalize_taxi: "normalizeText (S ''taxi'') = S ''taxi''"
  by (simp add: string_defs)

lemma normalize_uber: "normalizeText (S ''uber'') = S ''uber''"
  by (simp add: string_defs)

lemma normalize_blank: "normalizeText (S '' '') = []" "normalizeText (S ''%'') = []"
  by (simp_all add: string_defs)

lemma trim_taxi: "trim (S ''taxi'') \<noteq> []"
  by (simp add: string_defs)

lemma trim_blank: "trim (S '' '') = []"
  by (simp add: string_defs)

lemma includes_taxi: "str_includes (S ''taxi'') (S ''taxi'')" "\<not> str_includes (S ''taxi'') (S ''uber'')"
  by (simp_all add: S_def)

lemma taxi_ids: "c_id taxi_a = S ''cat-a''" "c_id taxi_b = S ''cat-b''" "S ''cat-a'' \<noteq> S ''cat-b''"
  by (simp_all add: taxi_a_def taxi_b_def S_def)

lemma taxi_keyword_matches:
  "concat (map (category_keyword_match (normalizeText (S ''taxi''))) [taxi_a, taxi_b]) =
    [\<lparr>categoryId = c_id taxi_a, categoryName = c_name taxi_a, confidence = 0.85,
      matchedKeyword = Some (S ''taxi''), matchType = keyword_match\<rparr>,
     \<lparr>categoryId = c_id taxi_b, categoryName = c_name taxi_b, confidence = 0.85,
      matchedKeyword = Some (S ''taxi''), matchType = keyword_match\<rparr>]"
  by (simp add: category_keyword_match_def normalize_taxi normalize_uber includes_taxi
      taxi_a_def taxi_b_def)

lemma predict_taxi:
  "predictCategory (S ''taxi'') [taxi_a, taxi_b] [] [] =
     Some \<lparr>p_category_id = c_id taxi_a, p_category_name = c_name taxi_a, p_confidence = 0.85,
       alternative = Some \<lparr>alt_category_id = c_id taxi_b, alt_category_name = c_name taxi_b,
                            alt_confidence = 0.85\<rparr>\<rparr>"
  using keyword_prediction[OF trim_taxi taxi_keyword_matches] by auto

lemma rules_match_taxi:
  "matchesPattern (S ''taxi'') (pattern low_rule)" "matchesPattern (S ''taxi'') (pattern high_rule)"
  by (simp_all add: matchesPattern_def low_rule_def high_rule_def glob_of_def canonicalize_def
      is_line_terminator_def S_def)

lemma star_matches_empty: "matchesPattern [] (pattern star_rule)"
  by (simp add: matchesPattern_def star_rule_def glob_of_def S_def)

lemma rule_categories:
  "find (\<lambda>c. c_id c = r_category_id low_rule) [taxi_a, taxi_b] = Some taxi_b"
  "find (\<lambda>c. c_id c = r_category_id high_rule) [taxi_a, taxi_b] = Some taxi_a"
  "find (\<lambda>c. c_id c = r_category_id star_rule) [percent_category] = Some percent_category"
  by (simp_all add: low_rule_def high_rule_def star_rule_def taxi_a_def taxi_b_def
      percent_category_def S_def)

lemma rule_ids: "c_id taxi_a = r_category_id high_rule" "c_id taxi_b = r_category_id low_rule"
  "r_category_id high_rule \<noteq> r_category_id low_rule"
  by (simp_all add: low_rule_def high_rule_def taxi_a_def taxi_b_def S_def)

lemma rules_sorted:
  "sort_key (\<lambda>r. - priority r) [low_rule, high_rule] = [high_rule, low_rule]"
  by (simp add: low_rule_def high_rule_def)

lemma winning_rule_taxi:
  "find (\<lambda>r. matchesPattern (normalizeText (S ''taxi'')) (pattern r)
               \<and> find (\<lambda>c. c_id c = r_category_id r) [taxi_a, taxi_b] \<noteq> None)
     (sort_key (\<lambda>r. - priority r) [low_rule, high_rule]) = Some high_rule"
  unfolding rules_sorted normalize_taxi
  by (simp add: rules_match_taxi rule_ids)

lemma predict_taxi_rules:
  "\<exists>p. predictCategory (S ''taxi'') [taxi_a, taxi_b] [] [low_rule, high_rule] = Some p
       \<and> p_category_id p = r_category_id high_rule \<and> p_confidence p = 0.95"
  using winning_rule_prediction [OF trim_taxi winning_rule_taxi, of "[]"] by blast

lemma predict_blank: "predictCategory (S '' '') cats hist rules = None"
  by (simp add: predictCategory_def trim_blank)

subsection \<open>The claims on the predictions\<close>



text \<open>
  Claim C6, as the code has it.  For every description that is not blank: when some
  custom rule matches the normalized description and its category exists, the prediction
  has confidence 0.95 and names the category of the first rule, in descending order of
  priority (rules of equal priority in the order of the list), that matches and whose
  category exists; this holds whether or not a keyword matches as well.
\<close>

theorem C6_rule_precedence:
  assumes "trim desc \<noteq> []" "r \<in> set rules"
    "matchesPattern (normalizeText desc) (pattern r)"
    "find (\<lambda>c. c_id c = r_category_id r) cats \<noteq> None"
  shows "\<exists>p w c. predictCategory desc cats hist rules = Some p
      \<and> find (\<lambda>r. matchesPattern (normalizeText desc) (pattern r)
                    \<and> find (\<lambda>c. c_id c = r_category_id r) cats \<noteq> None)
            (sort_key (\<lambda>r. - priority r) rules) = Some w
      \<and> w \<in> set rules \<and> priority r \<le> priority w
      \<and> find (\<lambda>c. c_id c = r_category_id w) cats = Some c
      \<and> p_category_id p = r_category_id w \<and> p_category_name p = c_name c
      \<and> p_confidence p = 0.95"
proof -
  define P where "P = (\<lambda>r::CategoryRule. matchesPattern (normalizeText desc) (pattern r)
                      \<and> find (\<lambda>c. c_id c = r_category_id r) cats \<noteq> None)"
  define srt where "srt = sort_key (\<lambda>r. - priority r) rules"
  have r: "r \<in> set srt" "P r" using assms by (simp_all add: srt_def P_def)
  then have "find P srt \<noteq> None" by (auto simp: find_None_iff)
  then obtain w where w: "find P srt = Some w" by blast
  then have member: "w \<in> set rules"
    using find_Some_member[of P srt w] by (simp add: srt_def)
  have "sorted (map (\<lambda>r. - priority r) srt)" unfolding srt_def by simp
  from find_first_sorted[OF this w r] have order: "priority r \<le> priority w" by simp
  from winning_rule_prediction[OF assms(1) w[unfolded P_def srt_def]] obtain p c where
    "predictCategory desc cats hist rules = Some p"
    "find (\<lambda>c. c_id c = r_category_id w) cats = Some c"
    "p_category_id p = r_category_id w" "p_category_name p = c_name c" "p_confidence p = 0.95"
    by blast
  with w member order show ?thesis unfolding P_def srt_def by blast
qed

theorem C6_rule_precedence_witness:
  "trim (S ''taxi'') \<noteq> [] \<and> low_rule \<in> set [low_rule, high_rule]
   \<and> matchesPattern (normalizeText (S ''taxi'')) (pattern low_rule)
   \<and> find (\<lambda>c. c_id c = r_category_id low_rule) [taxi_a, taxi_b] \<noteq> None
   \<and> (\<exists>p w c. predictCategory (S ''taxi'') [taxi_a, taxi_b] [] [low_rule, high_rule] = Some p
      \<and> find (\<lambda>r. matchesPattern (normalizeText (S ''taxi'')) (pattern r)
                    \<and> find (\<lambda>c. c_id c = r_category_id r) [taxi_a, taxi_b] \<noteq> None)
            (sort_key (\<lambda>r. - priority r) [low_rule, high_rule]) = Some w
      \<and> w \<in> set [low_rule, high_rule] \<and> priority low_rule \<le> priority w
      \<and> find (\<lambda>c. c_id c = r_category_id w) [taxi_a, taxi_b] = Some c
      \<and> p_category_id p = r_category_id w \<and> p_category_name p = c_name c
      \<and> p_confidence p = 0.95)"
proof -
  have h1: "low_rule \<in> set [low_rule, high_rule]" by simp
  have h2: "matchesPattern (normalizeText (S ''taxi'')) (pattern low_rule)"
    by (simp add: normalize_taxi rules_match_taxi)
  have h3: "find (\<lambda>c. c_id c = r_category_id low_rule) [taxi_a, taxi_b] \<noteq> None"
    unfolding rule_categories by simp
  from C6_rule_precedence [OF trim_taxi h1 h2 h3, of "[]"] trim_taxi h1 h2 h3
  show ?thesis by blast
qed

text \<open>
  The claim as the specification states it fails in two ways.  A blank description is
  answered with no prediction, although the rule \<open>*\<close> and the keyword \<open>%\<close> both match
  its normalized text.  And of two matching rules only the one of higher priority
  decides: the rule \<open>taxi\<close> matches, its category exists and a keyword matches too, yet
  the prediction is the category of the rule \<open>tax*\<close>.
\<close>

theorem C6_rule_precedence_counterexample:
  "(matchesPattern (normalizeText (S '' '')) (pattern star_rule)
    \<and> find (\<lambda>c. c_id c = r_category_id star_rule) [percent_category] = Some percent_category
    \<and> S ''%'' \<in> set (c_keywords percent_category)
    \<and> str_includes (normalizeText (S '' '')) (normalizeText (S ''%''))
    \<and> predictCategory (S '' '') [percent_category] [] [star_rule] = None)
   \<and> (matchesPattern (normalizeText (S ''taxi'')) (pattern low_rule)
    \<and> find (\<lambda>c. c_id c = r_category_id low_rule) [taxi_a, taxi_b] = Some taxi_b
    \<and> S ''taxi'' \<in> set (c_keywords taxi_b)
    \<and> str_includes (normalizeText (S ''taxi'')) (normalizeText (S ''taxi''))
    \<and> (\<exists>p. predictCategory (S ''taxi'') [taxi_a, taxi_b] [] [low_rule, high_rule] = Some p
           \<and> p_category_id p \<noteq> r_category_id low_rule))"
proof -
  have a: "matchesPattern (normalizeText (S '' '')) (pattern star_rule)"
    by (simp add: normalize_blank star_matches_empty)
  have b: "S ''%'' \<in> set (c_keywords percent_category)"
    by (simp add: percent_category_def)
  have c: "str_includes (normalizeText (S '' '')) (normalizeText (S ''%''))"
    by (simp add: normalize_blank)
  have d: "matchesPattern (normalizeText (S ''taxi'')) (pattern low_rule)"
    by (simp add: normalize_taxi rules_match_taxi)
  have e: "S ''taxi'' \<in> set (c_keywords taxi_b)"
    by (simp add: taxi_b_def)
  have f: "str_includes (normalizeText (S ''taxi'')) (normalizeText (S ''taxi''))"
    by (simp add: normalize_taxi includes_taxi)
  have g: "\<exists>p. predictCategory (S ''taxi'') [taxi_a, taxi_b] [] [low_rule, high_rule] = Some p
           \<and> p_category_id p \<noteq> r_category_id low_rule"
    using predict_taxi_rules rule_ids(3) by auto
  from a b c d e f g rule_categories predict_blank show ?thesis by blast
qed

text \<open>
  Claim C7, as the code has it.  For every description that is not blank (so for every
  non-empty normalized description), with no history and no rules: when some category
  has a keyword whose normalization occurs in the normalized description, the prediction
  is the first category of the list that has such a keyword, with confidence 0.85.
\<close>

theorem C7_keyword_prediction:
  assumes "trim desc \<noteq> []" "c \<in> set cats" "k \<in> set (c_keywords c)"
    "str_includes (normalizeText desc) (normalizeText k)"
  shows "\<exists>p c0. predictCategory desc cats [] [] = Some p
      \<and> find (\<lambda>c. list_ex (\<lambda>k. str_includes (normalizeText desc) (normalizeText k))
                      (c_keywords c)) cats = Some c0
      \<and> p_category_id p = c_id c0 \<and> p_category_name p = c_name c0
      \<and> p_confidence p = 0.85"
proof -
  define has where
    "has = (\<lambda>c::Category. list_ex (\<lambda>k. str_includes (normalizeText desc) (normalizeText k))
                      (c_keywords c))"
  have "has c" using assms(3,4) by (auto simp: has_def list_ex_iff)
  with assms(2) have "find has cats \<noteq> None" by (auto simp: find_None_iff)
  then obtain c0 where c0: "find has cats = Some c0" by blast
  from keyword_matches_head [OF c0 [unfolded has_def]] obtain k0 rest where
    km: "concat (map (category_keyword_match (normalizeText desc)) cats) =
           \<lparr>categoryId = c_id c0, categoryName = c_name c0, confidence = 0.85,
            matchedKeyword = Some k0, matchType = keyword_match\<rparr> # rest"
    by blast
  from keyword_prediction [OF assms(1) km] obtain p where
    "predictCategory desc cats [] [] = Some p" "p_category_id p = c_id c0"
    "p_category_name p = c_name c0" "p_confidence p = 0.85"
    by auto
  with c0 show ?thesis unfolding has_def by blast
qed

theorem C7_keyword_prediction_witness:
  "trim (S ''taxi'') \<noteq> [] \<and> taxi_b \<in> set [taxi_a, taxi_b]
   \<and> S ''taxi'' \<in> set (c_keywords taxi_b)
   \<and> str_includes (normalizeText (S ''taxi'')) (normalizeText (S ''taxi''))
   \<and> (\<exists>p c0. predictCategory (S ''taxi'') [taxi_a, taxi_b] [] [] = Some p
      \<and> find (\<lambda>c. list_ex (\<lambda>k. str_includes (normalizeText (S ''taxi'')) (normalizeText k))
                      (c_keywords c)) [taxi_a, taxi_b] = Some c0
      \<and> p_category_id p = c_id c0 \<and> p_category_name p = c_name c0
      \<and> p_confidence p = 0.85)"
proof -
  have h1: "taxi_b \<in> set [taxi_a, taxi_b]" by simp
  have h2: "S ''taxi'' \<in> set (c_keywords taxi_b)" by (simp add: taxi_b_def)
  have h3: "str_includes (normalizeText (S ''taxi'')) (normalizeText (S ''taxi''))"
    by (simp add: normalize_taxi includes_taxi)
  from C7_keyword_prediction [OF trim_taxi h1 h2 h3] trim_taxi h1 h2 h3
  show ?thesis by blast
qed

text \<open>
  The claim as the specification states it fails: the category \<open>cat-b\<close> has the
  keyword \<open>taxi\<close>, which occurs in the normalized description \<open>taxi\<close>, but the
  prediction is the category \<open>cat-a\<close>, which comes first in the list and has the keyword
  too; \<open>cat-b\<close> is only the alternative.
\<close>

theorem C7_keyword_prediction_counterexample:
  "normalizeText (S ''taxi'') = S ''taxi'' \<and> taxi_b \<in> set [taxi_a, taxi_b]
   \<and> S ''taxi'' \<in> set (c_keywords taxi_b)
   \<and> str_includes (S ''taxi'') (normalizeText (S ''taxi''))
   \<and> (\<exists>p. predictCategory (S ''taxi'') [taxi_a, taxi_b] [] [] = Some p
          \<and> p_category_id p = c_id taxi_a \<and> p_category_id p \<noteq> c_id taxi_b)"
proof -
  have h2: "S ''taxi'' \<in> set (c_keywords taxi_b)" by (simp add: taxi_b_def)
  have h3: "str_includes (S ''taxi'') (normalizeText (S ''taxi''))"
    by (simp add: normalize_taxi includes_taxi)
  have "c_id taxi_a \<noteq> c_id taxi_b" by (simp add: taxi_ids)
  with predict_taxi normalize_taxi h2 h3 show ?thesis by simp
qed

end
